theory Spec2Isabelle
  imports Main "HOL-Library.Sublist"
begin

section \<open>JSON nodes and the string helper (chime.c)\<close>

text \<open>
  A \<open>JsonNode\<close> of json-glib. An object is kept as the list of its members (a
  \<open>JsonObject\<close> has one member of a name); a member is looked up by name. A pointer that may
  be \<open>NULL\<close> is an \<open>option\<close>.
\<close>

datatype json =
    JNull
  | JBool bool
  | JInt int
  | JString string
  | JArray "json list"
  | JObject "(string \<times> json) list"

text \<open>
  \<open>json_node_get_object\<close> gives \<open>NULL\<close> for a \<open>NULL\<close> node and for a node that does not hold
  an object; \<open>json_object_get_member\<close> gives \<open>NULL\<close> for a \<open>NULL\<close> object and for a missing
  member; \<open>json_node_get_string\<close> gives \<open>NULL\<close> unless the node holds a string value.
\<close>

fun json_node_get_object :: "json option \<Rightarrow> (string \<times> json) list option" where
  "json_node_get_object (Some (JObject ms)) = Some ms"
| "json_node_get_object _ = None"

fun json_object_get_member :: "(string \<times> json) list option \<Rightarrow> string \<Rightarrow> json option" where
  "json_object_get_member (Some ms) name = map_of ms name"
| "json_object_get_member None name = None"

fun json_node_get_string :: "json \<Rightarrow> string option" where
  "json_node_get_string (JString s) = Some s"
| "json_node_get_string _ = None"

lemma json_node_get_string_Some: "json_node_get_string v = Some s \<longleftrightarrow> v = JString s"
  by (cases v) auto

fun json_node_get_array :: "json option \<Rightarrow> json list option" where
  "json_node_get_array (Some (JArray xs)) = Some xs"
| "json_node_get_array _ = None"

text \<open>
  \<open>parse_string(parent, name, res)\<close>: the cell \<open>*res\<close> is passed in and returned; \<open>None\<close> in
  the cell stands for a pointer that holds no string yet. The result is the returned
  \<open>gboolean\<close> and the content of \<open>*res\<close> afterwards.
\<close>

definition parse_string :: "json option \<Rightarrow> string \<Rightarrow> string option \<Rightarrow> bool \<times> string option" where
  "parse_string parent name res =
     (case parent of
        None \<Rightarrow> (False, res)
      | Some p \<Rightarrow>
          (case json_node_get_object (Some p) of
             None \<Rightarrow> (False, res)
           | Some obj \<Rightarrow>
               (case json_object_get_member (Some obj) name of
                  None \<Rightarrow> (False, res)
                | Some node \<Rightarrow>
                    (case json_node_get_string node of
                       None \<Rightarrow> (False, res)
                     | Some str \<Rightarrow> (True, Some str)))))"

text \<open>The string a caller holds after a successful \<open>parse_string\<close> into a fresh cell.\<close>

definition get_string :: "json option \<Rightarrow> string \<Rightarrow> string option" where
  "get_string parent name =
     (case parse_string parent name None of (True, Some s) \<Rightarrow> Some s | _ \<Rightarrow> None)"

lemma get_string_simps [simp]:
  "get_string None name = None"
  "get_string (Some (JObject ms)) name =
     (case map_of ms name of Some (JString s) \<Rightarrow> Some s | _ \<Rightarrow> None)"
  "get_string (Some JNull) name = None"
  "get_string (Some (JBool b)) name = None"
  "get_string (Some (JInt i)) name = None"
  "get_string (Some (JString s)) name = None"
  "get_string (Some (JArray xs)) name = None"
  by (auto simp: get_string_def parse_string_def split: option.splits json.splits)

lemma parse_string_get_string:
  "parse_string parent name res =
     (case get_string parent name of None \<Rightarrow> (False, res) | Some s \<Rightarrow> (True, Some s))"
  by (cases parent; cases "the parent")
     (auto simp: get_string_def parse_string_def split: option.splits json.splits)

section \<open>glib string helpers\<close>

text \<open>
  \<open>strstr\<close> as a split at the first occurrence of a non-empty delimiter: the text before
  it and the text after it.
\<close>

fun split_first :: "string \<Rightarrow> string \<Rightarrow> (string \<times> string) option" where
  "split_first d [] = None"
| "split_first d (c # cs) =
     (if d \<noteq> [] \<and> prefix d (c # cs) then Some ([], drop (length d) (c # cs))
      else map_option (\<lambda>(tok, rest). (c # tok, rest)) (split_first d cs))"

text \<open>
  The loop of \<open>g_strsplit\<close>: \<open>k\<close> is the number of splits still allowed
  (\<open>while (--max_tokens && s)\<close>), the remainder becomes the last token.
\<close>

fun split_upto :: "string \<Rightarrow> nat \<Rightarrow> string \<Rightarrow> string list" where
  "split_upto d 0 remainder = [remainder]"
| "split_upto d (Suc k) remainder =
     (case split_first d remainder of
        None \<Rightarrow> [remainder]
      | Some (tok, rest) \<Rightarrow> tok # split_upto d k rest)"

text \<open>
  \<open>g_strsplit(string, delimiter, max_tokens)\<close>: \<open>NULL\<close> for an empty delimiter, the empty
  vector for the empty string. With \<open>max_tokens < 1\<close> the number of splits is not limited;
  a string of \<open>n\<close> characters has at most \<open>n\<close> delimiters, so \<open>n\<close> splits are allowed then.
\<close>

definition g_strsplit :: "string \<Rightarrow> string \<Rightarrow> int \<Rightarrow> string list option" where
  "g_strsplit str delimiter max_tokens =
     (if delimiter = [] then None
      else if str = [] then Some []
      else Some (split_upto delimiter
                   (if max_tokens < 1 then length str else nat max_tokens - 1) str))"

fun g_strjoinv :: "string \<Rightarrow> string list \<Rightarrow> string" where
  "g_strjoinv sep [] = []"
| "g_strjoinv sep [x] = x"
| "g_strjoinv sep (x # y # ys) = x @ sep @ g_strjoinv sep (y # ys)"

text \<open>
  Reading element \<open>i\<close> of a \<open>NULL\<close>-terminated string vector: a string, the terminating
  \<open>NULL\<close> (\<open>Some None\<close>), or a read past the end of the vector (\<open>None\<close>).
\<close>

definition strv_index :: "string list \<Rightarrow> nat \<Rightarrow> string option option" where
  "strv_index v i =
     (if i < length v then Some (Some (v ! i))
      else if i = length v then Some None
      else None)"

text \<open>\<open>%d\<close> of an unsigned value.\<close>

function show_nat :: "nat \<Rightarrow> string" where
  "show_nat n =
     (if n < 10 then [char_of (48 + n)]
      else show_nat (n div 10) @ [char_of (48 + n mod 10)])"
  by pat_completeness auto
termination
  by (relation "measure id") auto

declare show_nat.simps [simp del]

text \<open>\<open>%s\<close> of a string pointer: glib prints \<open>(null)\<close> for \<open>NULL\<close>.\<close>

definition show_str :: "string option \<Rightarrow> string" where
  "show_str s = (case s of None \<Rightarrow> ''(null)'' | Some t \<Rightarrow> t)"

section \<open>The connection of chime.c: requests, token renewal, websocket setup\<close>

record SoupURI =
  uri_string :: string
  uri_query :: "(string \<times> string) list"

text \<open>
  What \<open>json_parser_load_from_data\<close> makes of a response body: it fails (with or without
  setting the error), or it succeeds with a root node, which is \<open>NULL\<close> for an empty
  document.
\<close>

datatype parse_result = LoadFailed "string option" | LoadOk "json option"

record SoupMessage =
  http_method :: string
  uri :: SoupURI
  request_headers :: "(string \<times> string) list"
  request_body :: "json option"
  status_code :: nat
  reason_phrase :: string
  response_content_type :: "string option"
  response_data :: "string option"
  response_json :: parse_result

datatype callback = RegisterCb | WsCb | RenewCb

record chime_msg_queue =
  cmsg_msg :: SoupMessage
  cmsg_cb :: callback

text \<open>The calls the connection makes into libpurple and libsoup, in order.\<close>

datatype call =
    PurpleConnectionErrorReason string
  | PurpleAccountSetString string string
  | PurpleConnectionUpdateProgress string nat nat
  | SoupSessionQueueMessage SoupMessage callback
  | SoupSessionWebsocketConnectAsync SoupMessage "string list"

record chime_connection =
  session_token :: "string option"
  session_id :: string
  profile_url :: string
  websocket_url :: string
  msg_queue :: "chime_msg_queue list"
  calls :: "call list"

definition emit :: "call \<Rightarrow> chime_connection \<Rightarrow> chime_connection" where
  "emit c cxn = cxn\<lparr>calls := calls cxn @ [c]\<rparr>"

definition CONNECT_STEPS :: nat where
  "CONNECT_STEPS = 3"

definition soup_uri_new_printf :: "string \<Rightarrow> string \<Rightarrow> SoupURI" where
  "soup_uri_new_printf base appended =
     \<lparr>uri_string = base @ (if suffix ''/'' base then [] else ''/'')
                     @ (case appended of c # cs \<Rightarrow> if c = CHR ''/'' then cs else appended
                                       | [] \<Rightarrow> appended),
      uri_query = []\<rparr>"

definition soup_message_new_from_uri :: "string \<Rightarrow> SoupURI \<Rightarrow> SoupMessage" where
  "soup_message_new_from_uri m u =
     \<lparr>http_method = m, uri = u, request_headers = [], request_body = None, status_code = 0,
      reason_phrase = [], response_content_type = None, response_data = None,
      response_json = LoadFailed None\<rparr>"

text \<open>
  Request headers, in order. The only header name in chime.c is \<open>Cookie\<close>, always written
  so; names are compared as they are written.
\<close>

definition soup_message_headers_append ::
    "string \<Rightarrow> string \<Rightarrow> SoupMessage \<Rightarrow> SoupMessage" where
  "soup_message_headers_append name v msg =
     msg\<lparr>request_headers := request_headers msg @ [(name, v)]\<rparr>"

definition soup_message_headers_replace ::
    "string \<Rightarrow> string \<Rightarrow> SoupMessage \<Rightarrow> SoupMessage" where
  "soup_message_headers_replace name v msg =
     msg\<lparr>request_headers := filter (\<lambda>(n, _). n \<noteq> name) (request_headers msg) @ [(name, v)]\<rparr>"

text \<open>
  \<open>process_soup_response\<close>: the node and the error it leaves in \<open>*error\<close>.
\<close>

definition process_soup_response :: "SoupMessage \<Rightarrow> json option \<times> string option" where
  "process_soup_response msg =
     (if status_code msg \<noteq> 200 \<and> status_code msg \<noteq> 201 then
        (None, Some (''Request failed('' @ show_nat (status_code msg) @ ''): ''
                       @ reason_phrase msg))
      else if response_content_type msg \<noteq> Some ''application/json'' then
        (None, Some (''Server sent wrong content-type '' @ [CHR 0x27]
                       @ show_str (response_content_type msg) @ [CHR 0x27]))
      else
        (case response_json msg of
           LoadFailed err \<Rightarrow> (None, err)
         | LoadOk root \<Rightarrow> (root, None)))"

definition chime_queue_http_request ::
    "chime_connection \<Rightarrow> json option \<Rightarrow> SoupURI \<Rightarrow> callback \<Rightarrow> chime_connection" where
  "chime_queue_http_request cxn node u cb =
     (let msg = soup_message_new_from_uri (if node \<noteq> None then ''POST'' else ''GET'') u;
          msg = (case session_token cxn of
                   Some tok \<Rightarrow> soup_message_headers_append ''Cookie'' (''_aws_wt_session='' @ tok) msg
                 | None \<Rightarrow> msg);
          msg = (case node of Some n \<Rightarrow> msg\<lparr>request_body := Some n\<rparr> | None \<Rightarrow> msg)
      in emit (SoupSessionQueueMessage msg cb) cxn)"

definition chime_renew_token :: "chime_connection \<Rightarrow> chime_connection" where
  "chime_renew_token cxn =
     (let node = JObject [(''Token'', case session_token cxn of Some t \<Rightarrow> JString t | None \<Rightarrow> JNull)];
          u = soup_uri_new_printf (profile_url cxn) ''/tokens'';
          u = u\<lparr>uri_query := (case session_token cxn of Some t \<Rightarrow> [(''Token'', t)] | None \<Rightarrow> [])\<rparr>
      in chime_queue_http_request cxn (Some node) u RenewCb)"

definition resubmit_msg_for_auth ::
    "chime_connection \<Rightarrow> SoupMessage \<Rightarrow> callback \<Rightarrow> chime_connection" where
  "resubmit_msg_for_auth cxn msg cb =
     (let cmsg = \<lparr>cmsg_msg = msg, cmsg_cb = cb\<rparr> in
      if msg_queue cxn \<noteq> [] then
        cxn\<lparr>msg_queue := msg_queue cxn @ [cmsg]\<rparr>
      else
        chime_renew_token (cxn\<lparr>msg_queue := msg_queue cxn @ [cmsg]\<rparr>))"

text \<open>
  The loop of \<open>renew_cb\<close>: while the queue has a first element, put the new cookie on its
  message, hand it to the session and remove the element from the queue.
\<close>

function renew_requeue :: "string \<Rightarrow> chime_connection \<Rightarrow> chime_connection" where
  "renew_requeue cookie_hdr cxn =
     (case msg_queue cxn of
        [] \<Rightarrow> cxn
      | cmsg # _ \<Rightarrow>
          (let msg = soup_message_headers_replace ''Cookie'' cookie_hdr (cmsg_msg cmsg);
               cxn = emit (SoupSessionQueueMessage msg (cmsg_cb cmsg)) cxn
           in renew_requeue cookie_hdr (cxn\<lparr>msg_queue := remove1 cmsg (msg_queue cxn)\<rparr>)))"
  by pat_completeness auto
termination
  by (relation "measure (\<lambda>(c, cxn). length (msg_queue cxn))") (auto simp: emit_def)

declare renew_requeue.simps [simp del]

text \<open>
  \<open>renew_cb\<close>. \<open>None\<close> is the dereference of a \<open>NULL\<close> error (\<open>error->message\<close>), which
  happens when \<open>process_soup_response\<close> returns no node and no error.
\<close>

definition renew_cb :: "chime_connection \<Rightarrow> SoupMessage \<Rightarrow> chime_connection option" where
  "renew_cb cxn msg =
     (case process_soup_response msg of
        (None, None) \<Rightarrow> None
      | (None, Some message) \<Rightarrow>
          Some (emit (PurpleConnectionErrorReason (''Token renewal: '' @ message)) cxn)
      | (Some tok_node, _) \<Rightarrow>
          (case parse_string (Some tok_node) ''SessionToken'' None of
             (True, Some sess_tok) \<Rightarrow>
               (let cxn = emit (PurpleAccountSetString ''token'' sess_tok) cxn;
                    cxn = cxn\<lparr>session_token := Some sess_tok\<rparr>;
                    cookie_hdr = ''_aws_wt_session='' @ sess_tok
                in Some (renew_requeue cookie_hdr cxn))
           | _ \<Rightarrow> Some (emit (PurpleConnectionErrorReason ''Failed to renew session token'') cxn)))"

text \<open>
  \<open>ws_cb\<close>. \<open>None\<close> is the read of \<open>ws_opts[1]\<close> past the end of the vector, which
  \<open>g_strsplit\<close> returns with the terminator alone for an empty body.
\<close>

definition ws_upgrade :: "chime_connection \<Rightarrow> string \<Rightarrow> string \<Rightarrow> chime_connection" where
  "ws_upgrade cxn opt1 opt3 =
     (let u = \<lparr>uri_string = websocket_url cxn @ ''/1/websocket/'' @ opt1,
               uri_query = [(''session_uuid'', session_id cxn)]\<rparr>;
          msg = soup_message_new_from_uri ''GET'' u;
          cxn = emit (PurpleConnectionUpdateProgress ''Establishing WebSocket connection...''
                        4 CONNECT_STEPS) cxn;
          protos = (case g_strsplit opt3 '','' 0 of Some ps \<Rightarrow> ps | None \<Rightarrow> [])
      in emit (SoupSessionWebsocketConnectAsync msg protos) cxn)"

definition ws_cb :: "chime_connection \<Rightarrow> SoupMessage \<Rightarrow> chime_connection option" where
  "ws_cb cxn msg =
     (if status_code msg = 401 then Some (resubmit_msg_for_auth cxn msg WsCb)
      else if status_code msg \<noteq> 200 then
        Some (emit (PurpleConnectionErrorReason
                      (''Websocket connection error ('' @ show_nat (status_code msg) @ ''): ''
                         @ reason_phrase msg)) cxn)
      else
        (let ws_opts = (case response_data msg of
                          Some d \<Rightarrow> g_strsplit d '':'' 4
                        | None \<Rightarrow> None);
             unexpected = Some (emit (PurpleConnectionErrorReason
                                        ''Unexpected response in WebSocket setup'') cxn)
         in case ws_opts of
              None \<Rightarrow> unexpected
            | Some v \<Rightarrow>
                (case strv_index v 1 of
                   None \<Rightarrow> None
                 | Some None \<Rightarrow> unexpected
                 | Some (Some opt1) \<Rightarrow>
                     (case strv_index v 2 of
                        None \<Rightarrow> None
                      | Some None \<Rightarrow> unexpected
                      | Some (Some opt2) \<Rightarrow>
                          (case strv_index v 3 of
                             None \<Rightarrow> None
                           | Some None \<Rightarrow> unexpected
                           | Some (Some opt3) \<Rightarrow>
                               if take 10 opt3 \<noteq> ''websocket,'' then unexpected
                               else Some (ws_upgrade cxn opt1 opt3))))))"


subsection \<open>Parking requests and re-issuing them\<close>

definition parked :: "SoupMessage \<times> callback \<Rightarrow> chime_msg_queue" where
  "parked r = \<lparr>cmsg_msg = fst r, cmsg_cb = snd r\<rparr>"

definition resubmit_all :: "chime_connection \<Rightarrow> (SoupMessage \<times> callback) list \<Rightarrow> chime_connection" where
  "resubmit_all cxn reqs = foldl (\<lambda>c r. resubmit_msg_for_auth c (fst r) (snd r)) cxn reqs"

definition reissued :: "string \<Rightarrow> chime_msg_queue \<Rightarrow> call" where
  "reissued cookie_hdr cmsg =
     SoupSessionQueueMessage (soup_message_headers_replace ''Cookie'' cookie_hdr (cmsg_msg cmsg)) (cmsg_cb cmsg)"

definition ex_cxn :: chime_connection where
  "ex_cxn = \<lparr>session_token = Some ''old'', session_id = ''sid'', profile_url = ''https://p'',
             websocket_url = ''wss://w'', msg_queue = [], calls = []\<rparr>"

definition ex_request :: "string \<Rightarrow> SoupMessage" where
  "ex_request u =
     (soup_message_headers_append ''Cookie'' ''_aws_wt_session=old''
        (soup_message_new_from_uri ''GET'' \<lparr>uri_string = u, uri_query = []\<rparr>))
     \<lparr>status_code := 401, reason_phrase := ''Unauthorized''\<rparr>"

definition ex_response :: "nat \<Rightarrow> string option \<Rightarrow> parse_result \<Rightarrow> SoupMessage" where
  "ex_response st ct js =
     (soup_message_new_from_uri ''POST'' \<lparr>uri_string = ''https://p/tokens'', uri_query = []\<rparr>)
     \<lparr>status_code := st, response_content_type := ct, response_json := js\<rparr>"

definition ex_reqs :: "(SoupMessage \<times> callback) list" where
  "ex_reqs = [(ex_request ''a'', WsCb), (ex_request ''b'', WsCb), (ex_request ''c'', WsCb)]"

definition ex_renewed :: SoupMessage where
  "ex_renewed = ex_response 200 (Some ''application/json'')
                  (LoadOk (Some (JObject [(''SessionToken'', JString ''new'')])))"

subsection \<open>Websocket negotiation fields; concrete inputs\<close>

definition ws_fields :: "string \<Rightarrow> string list" where
  "ws_fields d = (case g_strsplit d '':'' 4 of Some v \<Rightarrow> v | None \<Rightarrow> [])"

definition ws_transports :: "string \<Rightarrow> string list" where
  "ws_transports field = (case g_strsplit field '','' 0 of Some ps \<Rightarrow> ps | None \<Rightarrow> [])"

definition ws_unexpected :: "chime_connection \<Rightarrow> chime_connection" where
  "ws_unexpected cxn = emit (PurpleConnectionErrorReason ''Unexpected response in WebSocket setup'') cxn"

definition ex_negotiation :: "string \<Rightarrow> SoupMessage" where
  "ex_negotiation d =
     (soup_message_new_from_uri ''GET'' \<lparr>uri_string = ''wss://w/1'', uri_query = []\<rparr>)
     \<lparr>status_code := 200, reason_phrase := ''OK'', response_data := Some d\<rparr>"

definition ex_parked :: chime_connection where
  "ex_parked = ex_cxn\<lparr>msg_queue := [parked (ex_request ''a'', WsCb)]\<rparr>"

definition ex_failed :: SoupMessage where
  "ex_failed = (ex_response 500 None (LoadFailed None))\<lparr>reason_phrase := ''Internal Server Error''\<rparr>"

section \<open>Mentions (chat.c)\<close>

text \<open>\<open>strstr(haystack, needle) != NULL\<close>; the empty needle is found in every string.\<close>

definition strstr :: "string \<Rightarrow> string \<Rightarrow> bool" where
  "strstr haystack needle = (needle = [] \<or> split_first needle haystack \<noteq> None)"

text \<open>
  \<open>replace(dst, a, b)\<close>: split \<open>*dst\<close> at \<open>a\<close> and join the parts with \<open>b\<close>. \<open>g_strsplit\<close> returns
  \<open>NULL\<close> for a \<open>NULL\<close> string and for an empty delimiter, and \<open>g_strjoinv\<close> returns \<open>NULL\<close> for a
  \<open>NULL\<close> vector, so \<open>*dst\<close> may end up \<open>NULL\<close>.
\<close>

definition replace :: "string option \<Rightarrow> string \<Rightarrow> string \<Rightarrow> string option" where
  "replace dst a b =
     (let parts = (case dst of None \<Rightarrow> None | Some s \<Rightarrow> g_strsplit s a 0)
      in case parts of None \<Rightarrow> None | Some ps \<Rightarrow> Some (g_strjoinv b ps))"

record chat_member =
  member_id :: string
  email :: string
  display_name :: string

definition chime_mention :: "string \<Rightarrow> string \<Rightarrow> string" where
  "chime_mention mid name = ''<@'' @ mid @ ''|'' @ name @ ''>''"

definition expand_member_cb :: "string \<Rightarrow> chat_member \<Rightarrow> string option \<Rightarrow> string option" where
  "expand_member_cb mid member dest =
     replace dest (display_name member) (chime_mention mid (display_name member))"

text \<open>
  \<open>parse_outbound_mentions\<close>. The member table is given as the list of its entries in the
  order in which \<open>g_hash_table_foreach\<close> visits them.
\<close>

definition parse_outbound_mentions ::
    "(string \<times> chat_member) list \<Rightarrow> string \<Rightarrow> string option" where
  "parse_outbound_mentions members_list message =
     (let parsed = Some message;
          parsed = replace parsed ''@all'' ''<@all|All Members>'';
          parsed = replace parsed ''@present'' ''<@present|Present Members>''
      in foldl (\<lambda>dest (mid, member). expand_member_cb mid member dest) parsed members_list)"

text \<open>
  The rewriting in the words of the specification: going through the text from the left,
  each occurrence of \<open>a\<close> is replaced by \<open>b\<close>.
\<close>

function subst_all :: "string \<Rightarrow> string \<Rightarrow> string \<Rightarrow> string" where
  "subst_all a b [] = []"
| "subst_all a b (c # cs) =
     (if a \<noteq> [] \<and> prefix a (c # cs) then b @ subst_all a b (drop (length a) (c # cs))
      else c # subst_all a b cs)"
  by pat_completeness auto
termination
  by (relation "measure (\<lambda>(a, b, s). length s)") (auto simp: neq_Nil_conv)

text \<open>
  \<open>g_markup_escape_text\<close> on UTF-8 text: the five markup characters become entities, and so
  do the control characters U+0001..U+0008, U+000B, U+000C, U+000E..U+001F, U+007F..U+0084
  and U+0086..U+009F (the latter as the two bytes \<open>C2 xx\<close>), written \<open>&#x..;\<close> in hexadecimal.
\<close>

function show_hex :: "nat \<Rightarrow> string" where
  "show_hex n =
     (if n < 16 then [''0123456789abcdef'' ! n]
      else show_hex (n div 16) @ [''0123456789abcdef'' ! (n mod 16)])"
  by pat_completeness auto
termination
  by (relation "measure id") auto

declare show_hex.simps [simp del]

definition escaped_control :: "nat \<Rightarrow> bool" where
  "escaped_control c =
     ((1 \<le> c \<and> c \<le> 8) \<or> (11 \<le> c \<and> c \<le> 12) \<or> (14 \<le> c \<and> c \<le> 31) \<or>
      (127 \<le> c \<and> c \<le> 132) \<or> (134 \<le> c \<and> c \<le> 159))"

definition escape_char :: "char \<Rightarrow> string" where
  "escape_char c =
     (if c = CHR ''&'' then ''&amp;''
      else if c = CHR ''<'' then ''&lt;''
      else if c = CHR ''>'' then ''&gt;''
      else if c = CHR 0x27 then ''&apos;''
      else if c = CHR 0x22 then ''&quot;''
      else if of_char c < (128 :: nat) \<and> escaped_control (of_char c)
        then ''&#x'' @ show_hex (of_char c) @ '';''
      else [c])"

fun g_markup_escape_text :: "string \<Rightarrow> string" where
  "g_markup_escape_text [] = []"
| "g_markup_escape_text [c] = escape_char c"
| "g_markup_escape_text (c # d # cs) =
     (if c = CHR 0xC2 \<and> (128 :: nat) \<le> of_char d \<and> escaped_control (of_char d)
      then ''&#x'' @ show_hex (of_char d) @ '';'' @ g_markup_escape_text cs
      else escape_char c @ g_markup_escape_text (d # cs))"

text \<open>
  The mention pattern \<open>&lt;@([\w\-]+)\|(.*?)&gt;\<close> and its replacement \<open><b>\2</b>\<close>.
  \<open>g_regex_new\<close> compiles a pattern for UTF-8 text, with the Unicode properties of the
  regex library for \<open>\w\<close>: letters and digits beyond ASCII are word characters too. On
  ASCII the class is fixed here (\<open>is_word_char\<close>: letters, digits, underscore, and the
  hyphen of the class); which code points beyond ASCII belong to \<open>\w\<close> is the library's
  table, a parameter \<open>w\<close> of the matcher (constantly false for a library without that
  table). The text is UTF-8, as json-glib hands it out: a character is one byte below
  \<open>0x80\<close>, or a lead byte from \<open>0xC0\<close> with one to three bytes after it.
\<close>

definition is_word_char :: "char \<Rightarrow> bool" where
  "is_word_char c =
     (let n = (of_char c :: nat)
      in (48 \<le> n \<and> n \<le> 57) \<or> (65 \<le> n \<and> n \<le> 90) \<or> (97 \<le> n \<and> n \<le> 122) \<or>
         c = CHR ''_'' \<or> c = CHR ''-'')"

definition utf8_length :: "char \<Rightarrow> nat" where
  "utf8_length c =
     (let n = (of_char c :: nat)
      in if n < 0xC0 then 1 else if n < 0xE0 then 2 else if n < 0xF0 then 3 else 4)"

text \<open>The code point of one character: the payload bits of its bytes.\<close>

definition utf8_code_point :: "string \<Rightarrow> nat" where
  "utf8_code_point s =
     (case s of
        [] \<Rightarrow> 0
      | c # cs \<Rightarrow>
          foldl (\<lambda>a d. a * 64 + of_char d mod 64)
            (of_char c mod (if cs = [] then 128 else 2 ^ (6 - length cs))) cs)"

text \<open>
  The number of bytes of the character at the start of the text when \<open>[\w\-]\<close> matches it,
  and 0 when it does not.
\<close>

definition word_char_at :: "(nat \<Rightarrow> bool) \<Rightarrow> string \<Rightarrow> nat" where
  "word_char_at w s =
     (case s of
        [] \<Rightarrow> 0
      | c # cs \<Rightarrow>
          if (of_char c :: nat) < 0x80 then (if is_word_char c then 1 else 0)
          else if (of_char c :: nat) < 0xC0 then 0
          else if utf8_length c \<le> length s \<and> w (utf8_code_point (take (utf8_length c) s))
            then utf8_length c
          else 0)"

lemma word_char_at_le: "word_char_at w s \<le> length s"
  by (cases s) (auto simp: word_char_at_def)

text \<open>\<open>[\w\-]+\<close> is greedy: the text after the longest run of such characters.\<close>

function word_run :: "(nat \<Rightarrow> bool) \<Rightarrow> string \<Rightarrow> string" where
  "word_run w s = (if word_char_at w s = 0 then s else word_run w (drop (word_char_at w s) s))"
  by pat_completeness auto
termination
proof (relation "measure (\<lambda>(w, s). length s)")
  show "wf (measure (\<lambda>(w, s). length s))" by simp
next
  fix w :: "nat \<Rightarrow> bool" and s :: string
  assume "word_char_at w s \<noteq> 0"
  moreover from this have "s \<noteq> []" by (auto simp: word_char_at_def)
  ultimately show "((w, drop (word_char_at w s) s), (w, s)) \<in> measure (\<lambda>(w, s). length s)"
    by simp
qed

declare word_run.simps [simp del]

lemma word_run_length: "length (word_run w s) \<le> length s"
proof (induction w s rule: word_run.induct)
  case (1 w s)
  show ?case
  proof (cases "word_char_at w s = 0")
    case True
    then show ?thesis by (simp add: word_run.simps [of w s])
  next
    case False
    with 1 have "length (word_run w (drop (word_char_at w s) s)) \<le> length (drop (word_char_at w s) s)"
      by simp
    with False show ?thesis by (simp add: word_run.simps [of w s])
  qed
qed

text \<open>
  The dot matches every character but a line break, and any Unicode line break counts: LF,
  VT, FF, CR, and in UTF-8 U+0085, U+2028 and U+2029.
\<close>

definition newline_at :: "string \<Rightarrow> bool" where
  "newline_at s =
     (prefix [CHR 0x0A] s \<or> prefix [CHR 0x0B] s \<or> prefix [CHR 0x0C] s \<or> prefix [CHR 0x0D] s \<or>
      prefix [CHR 0xC2, CHR 0x85] s \<or> prefix [CHR 0xE2, CHR 0x80, CHR 0xA8] s \<or>
      prefix [CHR 0xE2, CHR 0x80, CHR 0xA9] s)"

text \<open>\<open>(.*?)&gt;\<close>: the shortest text without a line break that is followed by \<open>&gt;\<close>.\<close>

fun lazy_until_gt :: "string \<Rightarrow> (string \<times> string) option" where
  "lazy_until_gt [] = None"
| "lazy_until_gt (c # cs) =
     (if prefix ''&gt;'' (c # cs) then Some ([], drop 4 (c # cs))
      else if newline_at (c # cs) then None
      else map_option (\<lambda>(name, rest). (c # name, rest)) (lazy_until_gt cs))"

text \<open>
  A match of the pattern at the start of the text: group 2 and the text after the match.
  The run of \<open>[\w\-]\<close> ends where the class ends, and the bar has to stand there.
\<close>

definition match_mention :: "(nat \<Rightarrow> bool) \<Rightarrow> string \<Rightarrow> (string \<times> string) option" where
  "match_mention w s =
     (if prefix ''&lt;@'' s then
        (let r = drop 5 s
         in if word_char_at w r = 0 then None
            else (case word_run w r of
                    c # r' \<Rightarrow> if c = CHR ''|'' then lazy_until_gt r' else None
                  | [] \<Rightarrow> None))
      else None)"

lemma lazy_until_gt_shorter: "lazy_until_gt s = Some (name, rest) \<Longrightarrow> length rest < length s"
  by (induction s arbitrary: name) (auto split: if_splits)

lemma match_mention_shorter:
  assumes "match_mention w s = Some (name, rest)"
  shows "length rest < length s"
proof -
  from assms obtain r' where r': "word_run w (drop 5 s) = CHR ''|'' # r'"
      and l: "lazy_until_gt r' = Some (name, rest)"
    by (auto simp: match_mention_def Let_def split: if_splits list.splits)
  have "length (word_run w (drop 5 s)) \<le> length s"
    using word_run_length [of w "drop 5 s"] by simp
  with r' have "length r' < length s" by simp
  with lazy_until_gt_shorter [OF l] show ?thesis by simp
qed

text \<open>\<open>g_regex_replace\<close> with the mention pattern: every match, from the left, is replaced.\<close>

function regex_replace_mentions :: "(nat \<Rightarrow> bool) \<Rightarrow> string \<Rightarrow> string" where
  "regex_replace_mentions w [] = []"
| "regex_replace_mentions w (c # cs) =
     (case match_mention w (c # cs) of
        Some (name, rest) \<Rightarrow> ''<b>'' @ name @ ''</b>'' @ regex_replace_mentions w rest
      | None \<Rightarrow> c # regex_replace_mentions w cs)"
  by pat_completeness auto
termination
  by (relation "measure (\<lambda>(w, s). length s)") (auto dest: match_mention_shorter)

text \<open>
  \<open>parse_inbound_mentions\<close>: whether the viewer is mentioned, and the text for display.
  The compiled \<open>mention_regex\<close> of a chat is this one pattern for every chat, so the chat
  record does not keep it; \<open>w\<close> stands for what the library knows of \<open>\w\<close>.
\<close>

definition parse_inbound_mentions :: "(nat \<Rightarrow> bool) \<Rightarrow> string \<Rightarrow> string \<Rightarrow> bool \<times> string" where
  "parse_inbound_mentions w profile_id message =
     (strstr message profile_id \<or> strstr message ''&lt;@all|'' \<or> strstr message ''&lt;@present|'',
      regex_replace_mentions w message)"

subsection \<open>Mention rewriting in the words of the specification\<close>

text \<open>One member of the table applied to the text: each occurrence of the display name
  becomes the mention of that member.\<close>

definition rewrite_member :: "string \<Rightarrow> string \<times> chat_member \<Rightarrow> string" where
  "rewrite_member text e =
     subst_all (display_name (snd e)) (chime_mention (fst e) (display_name (snd e))) text"

text \<open>A text with no \<open>&gt;\<close> and no line break in it.\<close>

fun no_gt_or_newline :: "string \<Rightarrow> bool" where
  "no_gt_or_newline [] = True"
| "no_gt_or_newline (c # cs) =
     (\<not> prefix ''&gt;'' (c # cs) \<and> \<not> newline_at (c # cs) \<and> no_gt_or_newline cs)"

text \<open>Printable ASCII other than the five markup characters.\<close>

definition plain_char :: "char \<Rightarrow> bool" where
  "plain_char c =
     ((32 :: nat) \<le> of_char c \<and> (of_char c :: nat) \<le> 126 \<and>
      c \<noteq> CHR ''&'' \<and> c \<noteq> CHR ''<'' \<and> c \<noteq> CHR ''>'' \<and> c \<noteq> CHR 0x27 \<and> c \<noteq> CHR 0x22)"

definition ex_member :: chat_member where
  "ex_member = \<lparr>member_id = ''a1'', email = ''jo@example.org'', display_name = ''Jo''\<rparr>"

section \<open>Chats (chat.c)\<close>

text \<open>
  A chat is a heap object: callbacks are registered with a pointer to it, and the
  connection keeps the pointers in \<open>live_chats\<close> and \<open>chats_by_room\<close>. The heap maps the
  pointers of the allocated chats to their contents; a function that dereferences a pointer
  which is not allocated has no defined result (\<open>None\<close>).
\<close>

type_synonym chat_ptr = nat
type_synonym soup_handle = nat
type_synonym timeval = "int \<times> int"

record ChimeRoom =
  room_id :: string
  room_name :: string
  room_channel :: string

record chime_msgs =
  is_room :: bool
  msgs_id :: string
  messages :: "(string \<rightharpoonup> json) option"
  soup_msg :: "soup_handle option"
  msgs_done :: bool
  members_done :: bool

record chime_chat =
  msgs :: chime_msgs
  room :: ChimeRoom
  chat_room_id :: string
  conv :: nat
  members_msg :: "soup_handle option"
  got_members :: bool
  members :: "string \<rightharpoonup> chat_member"
  sent_msgs :: "string set"

datatype msg_flag =
  PURPLE_MESSAGE_SEND | PURPLE_MESSAGE_RECV | PURPLE_MESSAGE_NICK | PURPLE_MESSAGE_ERROR

datatype cb_flag = PURPLE_CBFLAGS_AWAY | PURPLE_CBFLAGS_VOICE

datatype jugg_cb = ChatMsgJuggCb | ChatMembershipJuggCb | ChatDemuxingJuggCb

text \<open>
  The context pointer a subscription is made with: a chat, or the connection itself (which
  \<open>chime_init_chats\<close> passes for the subscription of the device channel).
\<close>

datatype jugg_data = ChatData chat_ptr | ConnectionData

datatype http_cb = FetchMsgsCb | FetchMembersCb | SendMsgCb

record http_request =
  req_handle :: soup_handle
  req_node :: "json option"
  req_uri :: SoupURI
  req_method :: string
  req_cb :: http_cb
  req_data :: chat_ptr

record subscription =
  sub_channel :: string
  sub_type :: string
  sub_cb :: jugg_cb
  sub_data :: jugg_data

text \<open>
  The calls made to the host (libpurple) and to the parts of the plugin outside chat.c,
  in order. A conversation is named by the chat id it was created with.
\<close>

datatype host_call =
    ServGotJoinedChat nat string
  | ServGotChatLeft nat
  | ServGotChatIn nat string "msg_flag set" string int
  | PurpleConversationWrite nat string "msg_flag set" int
  | PurpleConvChatAddUser nat string cb_flag bool
  | PurpleConvChatUserSetFlags nat string cb_flag
  | ChimeCompleteMessages chat_ptr
  | QueueHttpRequest http_request
  | SoupSessionCancelMessage soup_handle nat
  | ChimeJuggSubscribe subscription
  | ChimeJuggUnsubscribe subscription

record ChimeConnection =
  profile_id :: string
  conn_display_name :: string
  messaging_url :: string
  device_channel :: string
  chat_id :: nat
  live_chats :: "nat \<rightharpoonup> chat_ptr"
  chats_by_room :: "ChimeRoom \<rightharpoonup> chat_ptr"
  heap :: "chat_ptr \<rightharpoonup> chime_chat"
  next_ptr :: chat_ptr
  next_handle :: soup_handle
  pending :: "http_request list"
  subscriptions :: "subscription list"
  last_msgs :: "string \<rightharpoonup> string \<times> string"
  trace :: "host_call list"

text \<open>
  What chat.c takes from outside and this model does not fix: \<open>parse_time\<close> (a helper of
  the plugin that is not in chat.c), \<open>g_time_val_from_iso8601\<close>, the clock, the value
  found in \<open>tv.tv_usec\<close> when it was never written, the callback of the history
  requests, the code points beyond ASCII that the regex library takes for \<open>\w\<close>, and the
  room that \<open>chime_connection_room_by_id\<close> finds for an id (the table of rooms is kept
  outside chat.c, which only reads it).
\<close>

record chat_env =
  parse_time :: "json option \<Rightarrow> string \<Rightarrow> (string \<times> timeval) option"
  g_time_val_from_iso8601 :: "string \<Rightarrow> timeval option"
  time_now :: int
  stack_usec :: int
  fetch_msgs_cb :: "ChimeConnection \<Rightarrow> chat_ptr \<Rightarrow> SoupMessage \<Rightarrow> json option \<Rightarrow> ChimeConnection option"
  ucp_word :: "nat \<Rightarrow> bool"
  room_by_id :: "string \<Rightarrow> ChimeRoom option"

definition emit_host :: "host_call \<Rightarrow> ChimeConnection \<Rightarrow> ChimeConnection" where
  "emit_host c cxn = cxn\<lparr>trace := trace cxn @ [c]\<rparr>"

definition set_chat :: "chat_ptr \<Rightarrow> chime_chat \<Rightarrow> ChimeConnection \<Rightarrow> ChimeConnection" where
  "set_chat p chat cxn = cxn\<lparr>heap := (heap cxn)(p \<mapsto> chat)\<rparr>"

subsection \<open>The request queue, the event channel and the message engine\<close>

text \<open>
  Modelled from the spec: \<open>chime_connection_queue_http_request\<close>, which is not in chat.c.
  The spec's \<open>enqueue(method, url, body?) -> pending request handle\<close>: the request gets a
  new handle and is pending until it completes or is cancelled.
\<close>

definition chime_connection_queue_http_request ::
    "ChimeConnection \<Rightarrow> json option \<Rightarrow> SoupURI \<Rightarrow> string \<Rightarrow> http_cb \<Rightarrow> chat_ptr
       \<Rightarrow> ChimeConnection \<times> soup_handle option" where
  "chime_connection_queue_http_request cxn node u m cb data =
     (let h = next_handle cxn;
          req = \<lparr>req_handle = h, req_node = node, req_uri = u, req_method = m,
                 req_cb = cb, req_data = data\<rparr>
      in (emit_host (QueueHttpRequest req)
            (cxn\<lparr>next_handle := Suc h, pending := pending cxn @ [req]\<rparr>), Some h))"


text \<open>
  Modelled from the spec: \<open>chime_jugg_subscribe\<close> and \<open>chime_jugg_unsubscribe\<close>, which are
  not in chat.c. A subscription is a tuple of channel, event type, callback and context;
  unsubscribing removes the tuple and does nothing when it is not there.
\<close>

definition chime_jugg_subscribe ::
    "ChimeConnection \<Rightarrow> string \<Rightarrow> string \<Rightarrow> jugg_cb \<Rightarrow> jugg_data \<Rightarrow> ChimeConnection" where
  "chime_jugg_subscribe cxn channel ty cb data =
     (let s = \<lparr>sub_channel = channel, sub_type = ty, sub_cb = cb, sub_data = data\<rparr>
      in emit_host (ChimeJuggSubscribe s) (cxn\<lparr>subscriptions := subscriptions cxn @ [s]\<rparr>))"


text \<open>
  Modelled from the spec: \<open>chime_update_last_msg\<close> and \<open>chime_read_last_msg\<close>, which are not
  in chat.c. The spec's persisted last-seen marker: per room the time stamp and the id of
  the message delivered last.
\<close>

definition chime_update_last_msg ::
    "ChimeConnection \<Rightarrow> bool \<Rightarrow> string \<Rightarrow> string \<Rightarrow> string \<Rightarrow> ChimeConnection" where
  "chime_update_last_msg cxn is_a_room ident msg_time msg_id =
     cxn\<lparr>last_msgs := (last_msgs cxn)(ident \<mapsto> (msg_time, msg_id))\<rparr>"

definition chime_read_last_msg ::
    "ChimeConnection \<Rightarrow> bool \<Rightarrow> string \<Rightarrow> (string \<times> string) option" where
  "chime_read_last_msg cxn is_a_room ident = last_msgs cxn ident"

text \<open>
  Modelled from the spec: \<open>fetch_messages\<close>, which is not in chat.c. The spec's start of the
  historical fetch: the in-progress buffer exists from now on, and the request for the
  page is queued, its handle kept in \<open>soup_msg\<close>.
\<close>

definition fetch_messages ::
    "ChimeConnection \<Rightarrow> chat_ptr \<Rightarrow> string option \<Rightarrow> ChimeConnection option" where
  "fetch_messages cxn p next_token =
     (case heap cxn p of
        None \<Rightarrow> None
      | Some chat \<Rightarrow>
          (let u = soup_uri_new_printf (messaging_url cxn)
                     (''/rooms/'' @ msgs_id (msgs chat) @ ''/messages'');
               u = u\<lparr>uri_query := (case next_token of Some t \<Rightarrow> [(''next-token'', t)] | None \<Rightarrow> [])\<rparr>;
               (cxn, h) = chime_connection_queue_http_request cxn None u ''GET'' FetchMsgsCb p;
               buffer = (case messages (msgs chat) of None \<Rightarrow> Map.empty | Some b \<Rightarrow> b)
           in Some (set_chat p (chat\<lparr>msgs := (msgs chat)\<lparr>messages := Some buffer, soup_msg := h\<rparr>\<rparr>) cxn)))"

text \<open>
  Modelled from the spec: \<open>chime_complete_messages\<close>, which is not in chat.c. It is the
  point at which the room is ready; what it delivers is not part of chat.c, so the call is
  recorded.
\<close>

definition chime_complete_messages :: "ChimeConnection \<Rightarrow> chat_ptr \<Rightarrow> ChimeConnection" where
  "chime_complete_messages cxn p = emit_host (ChimeCompleteMessages p) cxn"

subsection \<open>Delivering messages\<close>

text \<open>
  The \<open>serv_got_chat_in\<close> call of \<open>parse_incoming_msg\<close> for a message with the given content
  and sender: the sender's name, the flags, and the text with the mentions rewritten.
\<close>

definition serv_got_chat_in ::
    "chat_env \<Rightarrow> ChimeConnection \<Rightarrow> chime_chat \<Rightarrow> string \<Rightarrow> string \<Rightarrow> int \<Rightarrow> host_call" where
  "serv_got_chat_in env cxn chat content sender msg_time =
     (let (sender_name, msg_flags) =
            (if sender = profile_id cxn then (conn_display_name cxn, {PURPLE_MESSAGE_SEND})
             else ((case members chat sender of
                      Some who \<Rightarrow> display_name who
                    | None \<Rightarrow> ''Unknown sender''), {PURPLE_MESSAGE_RECV}));
          escaped = g_markup_escape_text content;
          (mentioned, parsed) = parse_inbound_mentions (ucp_word env) (profile_id cxn) escaped;
          msg_flags = (if mentioned \<and> PURPLE_MESSAGE_RECV \<in> msg_flags
                       then insert PURPLE_MESSAGE_NICK msg_flags else msg_flags)
      in ServGotChatIn (conv chat) sender_name msg_flags parsed msg_time)"

definition parse_incoming_msg ::
    "chat_env \<Rightarrow> ChimeConnection \<Rightarrow> chat_ptr \<Rightarrow> json option \<Rightarrow> int \<Rightarrow> ChimeConnection option" where
  "parse_incoming_msg env cxn p node msg_time =
     (case heap cxn p of
        None \<Rightarrow> None
      | Some chat \<Rightarrow>
          (case get_string node ''Content'' of
             None \<Rightarrow> Some cxn
           | Some content \<Rightarrow>
               (case get_string node ''Sender'' of
                  None \<Rightarrow> Some cxn
                | Some sender \<Rightarrow>
                    Some (emit_host (serv_got_chat_in env cxn chat content sender msg_time) cxn))))"

definition chat_deliver_msg ::
    "chat_env \<Rightarrow> ChimeConnection \<Rightarrow> chat_ptr \<Rightarrow> json option \<Rightarrow> int \<Rightarrow> ChimeConnection option" where
  "chat_deliver_msg env cxn p node msg_time =
     (case heap cxn p of
        None \<Rightarrow> None
      | Some chat \<Rightarrow>
          (case get_string node ''MessageId'' of
             Some msg_id \<Rightarrow>
               if msg_id \<in> sent_msgs chat
               then Some (set_chat p (chat\<lparr>sent_msgs := sent_msgs chat - {msg_id}\<rparr>) cxn)
               else parse_incoming_msg env cxn p node msg_time
           | None \<Rightarrow> parse_incoming_msg env cxn p node msg_time))"

subsection \<open>Members\<close>

definition add_chat_member ::
    "ChimeConnection \<Rightarrow> chat_ptr \<Rightarrow> json option \<Rightarrow> (bool \<times> ChimeConnection) option" where
  "add_chat_member cxn p node =
     (let obj = json_node_get_object node;
          member = json_object_get_member obj ''Member''
      in if member = None then Some (False, cxn)
         else
           (case get_string node ''Presence'' of
              None \<Rightarrow> Some (False, cxn)
            | Some presence \<Rightarrow>
                (case (if presence = ''notPresent'' then Some PURPLE_CBFLAGS_AWAY
                       else if presence = ''present'' then Some PURPLE_CBFLAGS_VOICE
                       else None) of
                   None \<Rightarrow> Some (False, cxn)
                 | Some flags \<Rightarrow>
                     (case (get_string member ''ProfileId'', get_string member ''Email'',
                            get_string member ''DisplayName'') of
                        (Some ident, Some mail, Some name) \<Rightarrow>
                          (case heap cxn p of
                             None \<Rightarrow> None
                           | Some chat \<Rightarrow>
                               if members chat ident = None then
                                 (let m = \<lparr>member_id = ident, email = mail, display_name = name\<rparr>;
                                      cxn = set_chat p (chat\<lparr>members := (members chat)(ident \<mapsto> m)\<rparr>) cxn
                                  in Some (True,
                                       emit_host (PurpleConvChatAddUser (conv chat) mail flags
                                                    (members_done (msgs chat))) cxn))
                               else
                                 Some (True,
                                   emit_host (PurpleConvChatUserSetFlags (conv chat) mail flags) cxn))
                      | _ \<Rightarrow> Some (False, cxn)))))"

definition one_member_cb :: "ChimeConnection \<Rightarrow> chat_ptr \<Rightarrow> json \<Rightarrow> ChimeConnection option" where
  "one_member_cb cxn p node = map_option snd (add_chat_member cxn p (Some node))"

text \<open>\<open>json_array_foreach_element\<close> with \<open>one_member_cb\<close>.\<close>

fun members_foreach :: "ChimeConnection \<Rightarrow> chat_ptr \<Rightarrow> json list \<Rightarrow> ChimeConnection option" where
  "members_foreach cxn p [] = Some cxn"
| "members_foreach cxn p (n # ns) =
     (case one_member_cb cxn p n of
        None \<Rightarrow> None
      | Some cxn' \<Rightarrow> members_foreach cxn' p ns)"

definition fetch_chat_memberships ::
    "ChimeConnection \<Rightarrow> chat_ptr \<Rightarrow> string option \<Rightarrow> ChimeConnection option" where
  "fetch_chat_memberships cxn p next_token =
     (case heap cxn p of
        None \<Rightarrow> None
      | Some chat \<Rightarrow>
          (let u = soup_uri_new_printf (messaging_url cxn)
                     (''/rooms/'' @ chat_room_id chat @ ''/memberships'');
               u = u\<lparr>uri_query := (''max-results'', ''50'')
                        # (case next_token of Some t \<Rightarrow> [(''next-token'', t)] | None \<Rightarrow> [])\<rparr>;
               (cxn, h) = chime_connection_queue_http_request cxn None u ''GET'' FetchMembersCb p
           in Some (set_chat p (chat\<lparr>members_msg := h\<rparr>) cxn)))"

definition fetch_members_cb ::
    "ChimeConnection \<Rightarrow> chat_ptr \<Rightarrow> SoupMessage \<Rightarrow> json option \<Rightarrow> ChimeConnection option" where
  "fetch_members_cb cxn p msg node =
     (let obj = json_node_get_object node;
          members_node = json_object_get_member obj ''RoomMemberships'';
          members_array = json_node_get_array members_node
      in case heap cxn p of
           None \<Rightarrow> None
         | Some chat \<Rightarrow>
             (let cxn = set_chat p (chat\<lparr>members_msg := None\<rparr>) cxn
              in case (case members_array of
                         None \<Rightarrow> Some cxn
                       | Some elements \<Rightarrow> members_foreach cxn p elements) of
                   None \<Rightarrow> None
                 | Some cxn \<Rightarrow>
                     (case get_string node ''NextToken'' of
                        Some next_token \<Rightarrow> fetch_chat_memberships cxn p (Some next_token)
                      | None \<Rightarrow>
                          (case heap cxn p of
                             None \<Rightarrow> None
                           | Some chat \<Rightarrow>
                               (let cxn = set_chat p (chat\<lparr>msgs := (msgs chat)\<lparr>members_done := True\<rparr>\<rparr>) cxn
                                in if msgs_done (msgs chat)
                                   then Some (chime_complete_messages cxn p)
                                   else Some cxn)))))"

subsection \<open>Live events\<close>

definition chat_msg_jugg_cb ::
    "chat_env \<Rightarrow> ChimeConnection \<Rightarrow> chat_ptr \<Rightarrow> json option \<Rightarrow> (bool \<times> ChimeConnection) option" where
  "chat_msg_jugg_cb env cxn p data_node =
     (let obj = json_node_get_object data_node;
          rec = json_object_get_member obj ''record''
      in if rec = None then Some (False, cxn)
         else
           (case get_string rec ''MessageId'' of
              None \<Rightarrow> Some (False, cxn)
            | Some msg_id \<Rightarrow>
                (case heap cxn p of
                   None \<Rightarrow> None
                 | Some chat \<Rightarrow>
                     (case messages (msgs chat) of
                        Some buffer \<Rightarrow>
                          Some (True,
                            set_chat p
                              (chat\<lparr>msgs := (msgs chat)\<lparr>messages := Some (buffer(msg_id := rec))\<rparr>\<rparr>) cxn)
                      | None \<Rightarrow>
                          (case parse_time env rec ''CreatedOn'' of
                             None \<Rightarrow> Some (False, cxn)
                           | Some (msg_time, tv) \<Rightarrow>
                               (let cxn = chime_update_last_msg cxn True (chat_room_id chat)
                                            msg_time msg_id
                                in map_option (Pair True)
                                     (chat_deliver_msg env cxn p rec (fst tv))))))))"


subsection \<open>Sending\<close>

definition SOUP_STATUS_IS_SUCCESSFUL :: "nat \<Rightarrow> bool" where
  "SOUP_STATUS_IS_SUCCESSFUL status = (200 \<le> status \<and> status < 300)"

text \<open>
  The test of \<open>send_msg_cb\<close> for a message the host has seen already: the last-seen marker of
  the room is at least as new as the time \<open>tv\<close> of the message.
\<close>

definition already_seen :: "chat_env \<Rightarrow> ChimeConnection \<Rightarrow> chime_chat \<Rightarrow> timeval \<Rightarrow> bool" where
  "already_seen env cxn chat tv =
     (case chime_read_last_msg cxn True (chat_room_id chat) of
        None \<Rightarrow> False
      | Some (last_seen, _) \<Rightarrow>
          (case g_time_val_from_iso8601 env last_seen of
             None \<Rightarrow> False
           | Some seen_tv \<Rightarrow>
               fst seen_tv > fst tv \<or> (fst seen_tv = fst tv \<and> snd seen_tv \<ge> snd tv)))"

text \<open>
  The \<open>tv\<close> of \<open>send_msg_cb\<close>: the time in \<open>CreatedOn\<close>, and when that cannot be parsed the
  current time in \<open>tv_sec\<close>, with \<open>tv_usec\<close> never written.
\<close>

definition created_on :: "chat_env \<Rightarrow> json option \<Rightarrow> timeval" where
  "created_on env msgnode =
     (case parse_time env msgnode ''CreatedOn'' of
        Some (msg_time, tv) \<Rightarrow> tv
      | None \<Rightarrow> (time_now env, stack_usec env))"

definition send_msg_cb ::
    "chat_env \<Rightarrow> ChimeConnection \<Rightarrow> chat_ptr \<Rightarrow> SoupMessage \<Rightarrow> json option \<Rightarrow> ChimeConnection option" where
  "send_msg_cb env cxn p msg node =
     (if \<not> SOUP_STATUS_IS_SUCCESSFUL (status_code msg) then
        (case heap cxn p of
           None \<Rightarrow> None
         | Some chat \<Rightarrow>
             Some (emit_host
                     (PurpleConversationWrite (conv chat)
                        (''Failed to deliver message ('' @ show_nat (status_code msg) @ ''): ''
                           @ reason_phrase msg)
                        {PURPLE_MESSAGE_ERROR} (time_now env)) cxn))
      else
        (let obj = json_node_get_object node;
             msgnode = json_object_get_member obj ''Message''
         in if msgnode = None then Some cxn
            else
              (let tv = created_on env msgnode
               in case heap cxn p of
                    None \<Rightarrow> None
                  | Some chat \<Rightarrow>
                      if already_seen env cxn chat tv then Some cxn
                      else
                        (let cxn = (case get_string msgnode ''MessageId'' of
                                      Some msg_id \<Rightarrow>
                                        set_chat p (chat\<lparr>sent_msgs := insert msg_id (sent_msgs chat)\<rparr>) cxn
                                    | None \<Rightarrow> cxn)
                         in parse_incoming_msg env cxn p msgnode (fst tv)))))"

subsection \<open>Joining and leaving\<close>

definition do_join_chat ::
    "ChimeConnection \<Rightarrow> ChimeRoom option \<Rightarrow> (ChimeConnection \<times> chat_ptr option) option" where
  "do_join_chat cxn room_opt =
     (case room_opt of
        None \<Rightarrow> Some (cxn, None)
      | Some r \<Rightarrow>
          (case chats_by_room cxn r of
             Some chat \<Rightarrow> Some (cxn, Some chat)
           | None \<Rightarrow>
               (let p = next_ptr cxn;
                    cxn = cxn\<lparr>next_ptr := Suc p\<rparr>;
                    chat = \<lparr>msgs = \<lparr>is_room = False, msgs_id = [], messages = None,
                                    soup_msg = None, msgs_done = False, members_done = False\<rparr>,
                            room = r, chat_room_id = room_id r, conv = 0, members_msg = None,
                            got_members = False, members = Map.empty, sent_msgs = {}\<rparr>;
                    new_id = chat_id cxn + 1;
                    cxn = cxn\<lparr>chat_id := new_id\<rparr>;
                    cxn = emit_host (ServGotJoinedChat new_id (room_name r)) cxn;
                    chat = chat\<lparr>conv := new_id\<rparr>;
                    cxn = cxn\<lparr>live_chats := (live_chats cxn)(new_id \<mapsto> p)\<rparr>;
                    cxn = cxn\<lparr>chats_by_room := (chats_by_room cxn)(r \<mapsto> p)\<rparr>;
                    chat = chat\<lparr>sent_msgs := {}\<rparr>;
                    chat = chat\<lparr>members := Map.empty\<rparr>;
                    cxn = chime_jugg_subscribe cxn (room_channel r) ''RoomMessage'' ChatMsgJuggCb (ChatData p);
                    cxn = chime_jugg_subscribe cxn (room_channel r) ''RoomMembership''
                            ChatMembershipJuggCb (ChatData p);
                    chat = chat\<lparr>msgs := (msgs chat)\<lparr>is_room := True, msgs_id := chat_room_id chat\<rparr>\<rparr>;
                    cxn = set_chat p chat cxn
                in case fetch_messages cxn p None of
                     None \<Rightarrow> None
                   | Some cxn \<Rightarrow>
                       (case fetch_chat_memberships cxn p None of
                          None \<Rightarrow> None
                        | Some cxn \<Rightarrow> Some (cxn, Some p)))))"



subsection \<open>The device channel\<close>



subsection \<open>Events reaching the callbacks\<close>




subsection \<open>Concrete chat inputs\<close>

definition ex_room :: ChimeRoom where
  "ex_room = \<lparr>room_id = ''r1'', room_name = ''Room'', room_channel = ''chan''\<rparr>"

text \<open>
  An environment for the examples. Of the letters beyond ASCII it knows those of U+00C0 to
  U+024F, and its one room is \<open>ex_room\<close>.
\<close>

definition ex_env :: chat_env where
  "ex_env = \<lparr>parse_time = (\<lambda>node name. case get_string node name of
                                         Some s \<Rightarrow> Some (s, (int (length s), 0))
                                       | None \<Rightarrow> None),
              g_time_val_from_iso8601 = (\<lambda>s. Some (int (length s), 0)),
              time_now = 1000, stack_usec = 0,
              fetch_msgs_cb = (\<lambda>cxn p msg node. Some cxn),
              ucp_word = (\<lambda>n. 0xC0 \<le> n \<and> n \<le> 0x24F \<and> n \<noteq> 0xD7 \<and> n \<noteq> 0xF7),
              room_by_id = (\<lambda>rid. if rid = ''r1'' then Some ex_room else None)\<rparr>"

definition ex_chat :: chime_chat where
  "ex_chat = \<lparr>msgs = \<lparr>is_room = True, msgs_id = ''r1'', messages = None, soup_msg = None,
                       msgs_done = True, members_done = True\<rparr>,
               room = ex_room, chat_room_id = ''r1'', conv = 1, members_msg = None,
               got_members = False, members = Map.empty, sent_msgs = {}\<rparr>"

definition ex_conn :: ChimeConnection where
  "ex_conn = \<lparr>profile_id = ''me'', conn_display_name = ''Me'', messaging_url = ''https://m'',
      device_channel = ''dev'',
               chat_id = 1, live_chats = [1 \<mapsto> 0], chats_by_room = [ex_room \<mapsto> 0],
               heap = [0 \<mapsto> ex_chat], next_ptr = 1, next_handle = 0, pending = [],
               subscriptions = [], last_msgs = Map.empty, trace = []\<rparr>"

definition ex_record :: json where
  "ex_record = JObject [(''MessageId'', JString ''m1''), (''Content'', JString ''hi''),
                        (''Sender'', JString ''me''), (''CreatedOn'', JString ''2017'')]"

definition ex_sent :: SoupMessage where
  "ex_sent = (soup_message_new_from_uri ''POST'' \<lparr>uri_string = ''https://m/rooms/r1/messages'', uri_query = []\<rparr>)
               \<lparr>status_code := 201, reason_phrase := ''Created''\<rparr>"

definition ex_fetching_chat :: chime_chat where
  "ex_fetching_chat = ex_chat\<lparr>msgs := (msgs ex_chat)\<lparr>messages := Some Map.empty, msgs_done := False\<rparr>\<rparr>"

definition ex_fetching :: ChimeConnection where
  "ex_fetching = set_chat 0 ex_fetching_chat ex_conn"

subsection \<open>Pages of members\<close>

text \<open>The requests queued so far, and the number of times the room was declared ready.\<close>

fun requests_of :: "host_call list \<Rightarrow> http_request list" where
  "requests_of [] = []"
| "requests_of (QueueHttpRequest r # cs) = r # requests_of cs"
| "requests_of (c # cs) = requests_of cs"

definition ready_calls :: "chat_ptr \<Rightarrow> ChimeConnection \<Rightarrow> nat" where
  "ready_calls p cxn = length (filter (\<lambda>c. c = ChimeCompleteMessages p) (trace cxn))"

text \<open>
  The request for a page of members in the words of the specification: 50 members at a
  time, with the next token of the page before when there is one.
\<close>

definition membership_request ::
    "string \<Rightarrow> string \<Rightarrow> string option \<Rightarrow> soup_handle \<Rightarrow> chat_ptr \<Rightarrow> http_request" where
  "membership_request url rid token h p =
     \<lparr>req_handle = h, req_node = None,
      req_uri = \<lparr>uri_string = uri_string (soup_uri_new_printf url (''/rooms/'' @ rid @ ''/memberships'')),
                 uri_query = (''max-results'', ''50'')
                               # (case token of Some t \<Rightarrow> [(''next-token'', t)] | None \<Rightarrow> [])\<rparr>,
      req_method = ''GET'', req_cb = FetchMembersCb, req_data = p\<rparr>"

text \<open>The responses to the successive membership requests, handled in order.\<close>

fun members_pages ::
    "ChimeConnection \<Rightarrow> chat_ptr \<Rightarrow> (SoupMessage \<times> json option) list \<Rightarrow> ChimeConnection option" where
  "members_pages cxn p [] = Some cxn"
| "members_pages cxn p (page # pages) =
     (case fetch_members_cb cxn p (fst page) (snd page) of
        None \<Rightarrow> None
      | Some cxn' \<Rightarrow> members_pages cxn' p pages)"

text \<open>What handling the members of a page leaves as it is.\<close>

definition fetch_unchanged :: "chat_ptr \<Rightarrow> ChimeConnection \<Rightarrow> ChimeConnection \<Rightarrow> bool" where
  "fetch_unchanged p cxn cxn' =
     ((case (heap cxn p, heap cxn' p) of
         (Some chat, Some chat') \<Rightarrow>
           msgs chat' = msgs chat \<and> chat_room_id chat' = chat_room_id chat \<and>
           members_msg chat' = members_msg chat
       | _ \<Rightarrow> False) \<and>
      messaging_url cxn' = messaging_url cxn \<and> next_handle cxn' = next_handle cxn \<and>
      requests_of (trace cxn') = requests_of (trace cxn) \<and>
      ready_calls p cxn' = ready_calls p cxn)"

definition page_request ::
    "string \<Rightarrow> string \<Rightarrow> chat_ptr \<Rightarrow> soup_handle \<times> SoupMessage \<times> json option \<Rightarrow> http_request" where
  "page_request url rid p hp =
     membership_request url rid (get_string (snd (snd hp)) ''NextToken'') (fst hp) p"

definition ex_joining_chat :: chime_chat where
  "ex_joining_chat = ex_chat\<lparr>msgs := (msgs ex_chat)\<lparr>members_done := False\<rparr>\<rparr>"

definition ex_joining :: ChimeConnection where
  "ex_joining = set_chat 0 ex_joining_chat ex_conn"

definition ex_page :: "string option \<Rightarrow> SoupMessage \<times> json option" where
  "ex_page token =
     (ex_sent,
      Some (JObject ((''RoomMemberships'', JArray [])
                       # (case token of Some t \<Rightarrow> [(''NextToken'', JString t)] | None \<Rightarrow> []))))"

subsection \<open>A connection without chats\<close>

definition ex_idle :: ChimeConnection where
  "ex_idle = \<lparr>profile_id = ''me'', conn_display_name = ''Me'', messaging_url = ''https://m'',
      device_channel = ''dev'',
               chat_id = 0, live_chats = Map.empty, chats_by_room = Map.empty,
               heap = Map.empty, next_ptr = 0, next_handle = 0, pending = [],
               subscriptions = [], last_msgs = Map.empty, trace = []\<rparr>"

subsection \<open>Leaving: fetches in flight and subscriptions of a chat\<close>


definition room_message_sub :: "chat_ptr \<Rightarrow> chime_chat \<Rightarrow> subscription" where
  "room_message_sub p chat =
     \<lparr>sub_channel = room_channel (room chat), sub_type = ''RoomMessage'',
      sub_cb = ChatMsgJuggCb, sub_data = ChatData p\<rparr>"

definition room_membership_sub :: "chat_ptr \<Rightarrow> chime_chat \<Rightarrow> subscription" where
  "room_membership_sub p chat =
     \<lparr>sub_channel = room_channel (room chat), sub_type = ''RoomMembership'',
      sub_cb = ChatMembershipJuggCb, sub_data = ChatData p\<rparr>"

definition ex_joined_chat :: chime_chat where
  "ex_joined_chat =
     \<lparr>msgs = \<lparr>is_room = True, msgs_id = ''r1'', messages = Some Map.empty, soup_msg = Some 0,
              msgs_done = False, members_done = False\<rparr>,
      room = ex_room, chat_room_id = ''r1'', conv = 1, members_msg = Some 1,
      got_members = False, members = Map.empty, sent_msgs = {}\<rparr>"

definition ex_history_request :: http_request where
  "ex_history_request =
     \<lparr>req_handle = 0, req_node = None,
      req_uri = \<lparr>uri_string = ''https://m/rooms/r1/messages'', uri_query = []\<rparr>,
      req_method = ''GET'', req_cb = FetchMsgsCb, req_data = 0\<rparr>"

definition ex_joined :: ChimeConnection where
  "ex_joined =
     \<lparr>profile_id = ''me'', conn_display_name = ''Me'', messaging_url = ''https://m'',
      device_channel = ''dev'',
      chat_id = 1, live_chats = [1 \<mapsto> 0], chats_by_room = [ex_room \<mapsto> 0],
      heap = [0 \<mapsto> ex_joined_chat], next_ptr = 1, next_handle = 2,
      pending = [ex_history_request, membership_request ''https://m'' ''r1'' None 1 0],
      subscriptions = [room_message_sub 0 ex_joined_chat, room_membership_sub 0 ex_joined_chat],
      last_msgs = Map.empty,
      trace = [ServGotJoinedChat 1 ''Room'',
               ChimeJuggSubscribe (room_message_sub 0 ex_joined_chat),
               ChimeJuggSubscribe (room_membership_sub 0 ex_joined_chat),
               QueueHttpRequest ex_history_request,
               QueueHttpRequest (membership_request ''https://m'' ''r1'' None 1 0)]\<rparr>"

subsection \<open>The device channel subscribed; a room joined and left\<close>





subsection \<open>Responses that are not what the callbacks expect\<close>

text \<open>
  A membership request that failed: status 500 and no JSON node. The room's history is
  complete, its first page of members is in flight.
\<close>

definition ex_server_error :: SoupMessage where
  "ex_server_error =
     (soup_message_new_from_uri ''GET''
        \<lparr>uri_string = ''https://m/rooms/r1/memberships'', uri_query = [(''max-results'', ''50'')]\<rparr>)
     \<lparr>status_code := 500, reason_phrase := ''Internal Server Error''\<rparr>"

definition ex_members_pending_chat :: chime_chat where
  "ex_members_pending_chat =
     ex_chat\<lparr>msgs := (msgs ex_chat)\<lparr>members_done := False\<rparr>, members_msg := Some 1\<rparr>"

definition ex_members_pending :: ChimeConnection where
  "ex_members_pending =
     (set_chat 0 ex_members_pending_chat ex_conn)
       \<lparr>next_handle := 2, pending := [membership_request ''https://m'' ''r1'' None 1 0]\<rparr>"

text \<open>A renewal response with status 200 and the right content type, but an empty body.\<close>

definition ex_empty_document :: SoupMessage where
  "ex_empty_document = ex_response 200 (Some ''application/json'') (LoadOk None)"

text \<open>
  The response to a send whose \<open>Message\<close> has no \<open>CreatedOn\<close>, on a connection whose
  last-seen marker for the room reads as second 4.
\<close>

definition ex_untimed :: json where
  "ex_untimed = JObject [(''MessageId'', JString ''m1''), (''Content'', JString ''hi''),
                         (''Sender'', JString ''me'')]"

definition ex_seen :: ChimeConnection where
  "ex_seen = ex_conn\<lparr>last_msgs := [''r1'' \<mapsto> (''2017'', ''m0'')]\<rparr>"

subsection \<open>Members whose names overlap\<close>

definition ex_all :: chat_member where
  "ex_all = \<lparr>member_id = ''x'', email = ''all@example.org'', display_name = ''All''\<rparr>"

definition ex_smith :: chat_member where
  "ex_smith = \<lparr>member_id = ''b2'', email = ''js@example.org'', display_name = ''Jo Smith''\<rparr>"

definition ex_sam :: chat_member where
  "ex_sam = \<lparr>member_id = ''c3'', email = ''sam@example.org'', display_name = ''Sam''\<rparr>"

definition ex_kim :: chat_member where
  "ex_kim = \<lparr>member_id = ''d4'', email = ''kim@example.org'', display_name = ''Kim''\<rparr>"

section \<open>Facts about the model\<close>

subsection \<open>The string helper\<close>

lemma parse_string_cases:
  "(parent = None \<longrightarrow> parse_string parent name res = (False, res)) \<and>
   (\<forall>p. parent = Some p \<and> json_node_get_object (Some p) = None \<longrightarrow>
        parse_string parent name res = (False, res)) \<and>
   (\<forall>ms. parent = Some (JObject ms) \<and> map_of ms name = None \<longrightarrow>
        parse_string parent name res = (False, res)) \<and>
   (\<forall>ms v. parent = Some (JObject ms) \<and> map_of ms name = Some v \<and>
        json_node_get_string v = None \<longrightarrow>
        parse_string parent name res = (False, res)) \<and>
   (\<forall>ms s. parent = Some (JObject ms) \<and> map_of ms name = Some (JString s) \<longrightarrow>
        parse_string parent name res = (True, Some s)) \<and>
   (fst (parse_string parent name res) \<longrightarrow>
        (\<exists>ms s. parent = Some (JObject ms) \<and> map_of ms name = Some (JString s))) \<and>
   (\<not> fst (parse_string parent name res) \<longrightarrow> snd (parse_string parent name res) = res)"
  by (cases parent; cases "the parent")
     (auto simp: parse_string_def json_node_get_string_Some split: option.splits json.splits)

subsection \<open>Token renewal\<close>

lemma resubmit_pending:
  "msg_queue cxn \<noteq> [] \<Longrightarrow>
   resubmit_msg_for_auth cxn m cb = cxn\<lparr>msg_queue := msg_queue cxn @ [parked (m, cb)]\<rparr>"
  by (simp add: resubmit_msg_for_auth_def parked_def)

lemma resubmit_all_pending:
  "msg_queue cxn \<noteq> [] \<Longrightarrow>
   resubmit_all cxn reqs = cxn\<lparr>msg_queue := msg_queue cxn @ map parked reqs\<rparr>"
proof (induction reqs arbitrary: cxn)
  case Nil
  then show ?case by (simp add: resubmit_all_def)
next
  case (Cons r reqs)
  have "resubmit_all cxn (r # reqs) = resubmit_all (resubmit_msg_for_auth cxn (fst r) (snd r)) reqs"
    by (simp add: resubmit_all_def)
  also have "resubmit_msg_for_auth cxn (fst r) (snd r) = cxn\<lparr>msg_queue := msg_queue cxn @ [parked r]\<rparr>"
    using Cons.prems resubmit_pending [of cxn "fst r" "snd r"] by simp
  also have "resubmit_all (cxn\<lparr>msg_queue := msg_queue cxn @ [parked r]\<rparr>) reqs
      = cxn\<lparr>msg_queue := msg_queue cxn @ [parked r]\<rparr>\<lparr>msg_queue := msg_queue (cxn\<lparr>msg_queue := msg_queue cxn @ [parked r]\<rparr>) @ map parked reqs\<rparr>"
    by (rule Cons.IH) simp
  finally show ?case by simp
qed

lemma resubmit_first:
  "msg_queue cxn = [] \<Longrightarrow>
   resubmit_msg_for_auth cxn m cb = chime_renew_token (cxn\<lparr>msg_queue := [parked (m, cb)]\<rparr>)"
  by (simp add: resubmit_msg_for_auth_def parked_def)

lemma chime_renew_token_fields:
  "msg_queue (chime_renew_token cxn) = msg_queue cxn"
  "session_token (chime_renew_token cxn) = session_token cxn"
  "\<exists>m. calls (chime_renew_token cxn) = calls cxn @ [SoupSessionQueueMessage m RenewCb]"
  by (simp_all add: chime_renew_token_def chime_queue_http_request_def emit_def Let_def)

lemma renew_requeue_all:
  "renew_requeue cookie_hdr cxn =
     cxn\<lparr>msg_queue := [], calls := calls cxn @ map (reissued cookie_hdr) (msg_queue cxn)\<rparr>"
proof (induction "msg_queue cxn" arbitrary: cxn)
  case Nil
  then show ?case by (simp add: renew_requeue.simps [of cookie_hdr cxn])
next
  case (Cons cmsg q)
  let ?c = "(emit (reissued cookie_hdr cmsg) cxn)\<lparr>msg_queue := q\<rparr>"
  have step: "renew_requeue cookie_hdr cxn = renew_requeue cookie_hdr ?c"
    using Cons.hyps(2) [symmetric]
    by (simp add: renew_requeue.simps [of cookie_hdr cxn] reissued_def emit_def Let_def)
  have "q = msg_queue ?c" by simp
  from Cons.hyps(1) [OF this] step Cons.hyps(2) [symmetric]
  show ?case by (simp add: emit_def)
qed

lemma cookie_replaced:
  "filter (\<lambda>(n, _). n = name) (request_headers (soup_message_headers_replace name v m)) = [(name, v)]"
  by (induction "request_headers m") (auto simp: soup_message_headers_replace_def filter_empty_conv)

lemma renew_cb_success:
  assumes "status_code rsp = 200 \<or> status_code rsp = 201"
      and "response_content_type rsp = Some ''application/json''"
      and "response_json rsp = LoadOk (Some node)"
      and "get_string (Some node) ''SessionToken'' = Some tok"
  shows "renew_cb cxn rsp =
           Some (cxn\<lparr>session_token := Some tok, msg_queue := [],
                     calls := calls cxn @ [PurpleAccountSetString ''token'' tok]
                                @ map (reissued (''_aws_wt_session='' @ tok)) (msg_queue cxn)\<rparr>)"
proof -
  have p: "process_soup_response rsp = (Some node, None)"
    using assms(1-3) by (auto simp: process_soup_response_def)
  have q: "parse_string (Some node) ''SessionToken'' None = (True, Some tok)"
    using assms(4) by (simp add: parse_string_get_string)
  show ?thesis
    by (simp add: renew_cb_def p q renew_requeue_all emit_def)
qed

subsection \<open>Renewal failure and websocket setup\<close>

lemma split_upto_length: "length (split_upto d k s) \<le> Suc k"
  by (induction d k s rule: split_upto.induct) (auto split: option.splits)

lemma split_upto_nonempty: "split_upto d k s \<noteq> []"
  by (cases k) (auto split: option.splits)

lemma ws_fields_length: "d \<noteq> [] \<Longrightarrow> 0 < length (ws_fields d) \<and> length (ws_fields d) \<le> 4"
  using split_upto_length [of "'':''" 3 d] split_upto_nonempty [of "'':''" 3 d]
  by (simp add: ws_fields_def g_strsplit_def)

lemma strv_index_cases:
  "i < length v \<Longrightarrow> strv_index v i = Some (Some (v ! i))"
  "i = length v \<Longrightarrow> strv_index v i = Some None"
  by (simp_all add: strv_index_def)

lemma ws_cb_ok:
  assumes "status_code msg = 200" and "response_data msg = Some d" and "d \<noteq> []"
  shows "ws_cb cxn msg =
           Some (if length (ws_fields d) = 4 \<and> prefix ''websocket,'' (ws_fields d ! 3)
                 then ws_upgrade cxn (ws_fields d ! 1) (ws_fields d ! 3)
                 else ws_unexpected cxn)"
proof -
  have g: "g_strsplit d '':'' 4 = Some (ws_fields d)"
    using assms(3) by (simp add: ws_fields_def g_strsplit_def)
  have pre: "take 10 s = ''websocket,'' \<longleftrightarrow> prefix ''websocket,'' s" for s :: string
  proof
    assume "take 10 s = ''websocket,''"
    then have "s = ''websocket,'' @ drop 10 s"
      using append_take_drop_id [of 10 s] by simp
    then show "prefix ''websocket,'' s"
      unfolding prefix_def by blast
  next
    assume "prefix ''websocket,'' s"
    then obtain r where "s = ''websocket,'' @ r"
      unfolding prefix_def by blast
    then show "take 10 s = ''websocket,''"
      by simp
  qed
  from ws_fields_length [OF assms(3)]
  consider "length (ws_fields d) = 1" | "length (ws_fields d) = 2"
    | "length (ws_fields d) = 3" | "length (ws_fields d) = 4"
    by linarith
  then show ?thesis
  proof cases
    case 1
    then show ?thesis
      by (simp add: ws_cb_def assms(1,2) g strv_index_def ws_unexpected_def)
  next
    case 2
    then show ?thesis
      by (simp add: ws_cb_def assms(1,2) g strv_index_def ws_unexpected_def)
  next
    case 3
    then show ?thesis
      by (simp add: ws_cb_def assms(1,2) g strv_index_def ws_unexpected_def)
  next
    case 4
    then show ?thesis
      by (simp add: ws_cb_def assms(1,2) g strv_index_def ws_unexpected_def pre)
  qed
qed

lemma ws_transports_first:
  assumes "prefix ''websocket,'' f"
  shows "\<exists>rest. ws_transports f = ''websocket'' # rest"
proof -
  obtain r where f: "f = ''websocket,'' @ r"
    using assms by (auto simp: prefix_def)
  have "split_first '','' f = Some (''websocket'', r)"
    by (simp add: f)
  moreover have "length f = Suc (length r + 9)"
    by (simp add: f)
  ultimately show ?thesis
    by (simp add: ws_transports_def g_strsplit_def f)
qed

lemma renew_cb_failure:
  assumes "(status_code rsp \<noteq> 200 \<and> status_code rsp \<noteq> 201) \<or>
           response_content_type rsp \<noteq> Some ''application/json'' \<or>
           (\<exists>err. response_json rsp = LoadFailed (Some err)) \<or>
           (\<exists>node. response_json rsp = LoadOk (Some node) \<and>
                   get_string (Some node) ''SessionToken'' = None)"
  shows "\<exists>reason. renew_cb cxn rsp = Some (emit (PurpleConnectionErrorReason reason) cxn)"
proof (cases "process_soup_response rsp")
  case (Pair node err)
  show ?thesis
  proof (cases node)
    case None
    with Pair assms obtain message where "err = Some message"
      by (auto simp: process_soup_response_def split: if_splits parse_result.splits)
    with Pair None have "renew_cb cxn rsp
        = Some (emit (PurpleConnectionErrorReason (''Token renewal: '' @ message)) cxn)"
      by (simp add: renew_cb_def)
    then show ?thesis by (rule exI)
  next
    case (Some tok_node)
    with Pair have j: "response_json rsp = LoadOk (Some tok_node)"
      and ok: "\<not> (status_code rsp \<noteq> 200 \<and> status_code rsp \<noteq> 201)"
              "response_content_type rsp = Some ''application/json''"
      by (auto simp: process_soup_response_def split: if_splits parse_result.splits)
    with assms have "get_string (Some tok_node) ''SessionToken'' = None"
      by auto
    then have "parse_string (Some tok_node) ''SessionToken'' None = (False, None)"
      by (simp add: parse_string_get_string)
    with Pair Some have "renew_cb cxn rsp
        = Some (emit (PurpleConnectionErrorReason ''Failed to renew session token'') cxn)"
      by (simp add: renew_cb_def)
    then show ?thesis by (rule exI)
  qed
qed

lemma show_nat_500: "show_nat 500 = ''500''"
  by code_simp

lemma ex_fields_first: "ws_fields ''a:b:c:websocket,xhr-polling'' = [''a'', ''b'', ''c'', ''websocket,xhr-polling'']"
  by (simp add: ws_fields_def g_strsplit_def numeral_3_eq_3)

lemma ex_fields_alone: "ws_fields ''a:b:c:websocket'' = [''a'', ''b'', ''c'', ''websocket'']"
  by (simp add: ws_fields_def g_strsplit_def numeral_3_eq_3)

subsection \<open>Mentions\<close>

lemma split_first_None_subst:
  "a \<noteq> [] \<Longrightarrow> split_first a s = None \<Longrightarrow> subst_all a b s = s"
  by (induction s) (auto split: if_splits)

lemma split_first_Some_subst:
  "a \<noteq> [] \<Longrightarrow> split_first a s = Some (tok, rest) \<Longrightarrow>
   subst_all a b s = tok @ b @ subst_all a b rest"
  by (induction s arbitrary: tok) (auto split: if_splits)

lemma split_first_shorter:
  "split_first a s = Some (tok, rest) \<Longrightarrow> length rest < length s"
  by (induction s arbitrary: tok) (auto split: if_splits simp: neq_Nil_conv)

lemma g_strjoinv_Cons: "ys \<noteq> [] \<Longrightarrow> g_strjoinv sep (x # ys) = x @ sep @ g_strjoinv sep ys"
  by (cases ys) auto

lemma join_split_upto:
  "a \<noteq> [] \<Longrightarrow> length s \<le> k \<Longrightarrow> g_strjoinv b (split_upto a k s) = subst_all a b s"
proof (induction k arbitrary: s)
  case 0
  then show ?case by simp
next
  case (Suc k)
  show ?case
  proof (cases "split_first a s")
    case None
    with Suc.prems show ?thesis
      by (simp add: split_first_None_subst)
  next
    case (Some tr)
    obtain tok rest where tr: "tr = (tok, rest)" by (cases tr)
    from Some tr have sf: "split_first a s = Some (tok, rest)" by simp
    from split_first_shorter [OF sf] Suc.prems have "length rest \<le> k" by simp
    with Suc.IH Suc.prems have "g_strjoinv b (split_upto a k rest) = subst_all a b rest"
      by simp
    with sf Suc.prems show ?thesis
      by (simp add: g_strjoinv_Cons split_upto_nonempty split_first_Some_subst)
  qed
qed

lemma replace_subst_all:
  "a \<noteq> [] \<Longrightarrow> replace (Some s) a b = Some (subst_all a b s)"
  by (simp add: replace_def g_strsplit_def join_split_upto)

lemma expand_members_fold:
  "\<forall>e \<in> set ms. display_name (snd e) \<noteq> [] \<Longrightarrow>
   foldl (\<lambda>dest (mid, member). expand_member_cb mid member dest) (Some t) ms
     = Some (foldl rewrite_member t ms)"
  by (induction ms arbitrary: t)
     (auto simp: expand_member_cb_def replace_subst_all rewrite_member_def)

lemma parse_outbound_mentions_subst:
  "\<forall>e \<in> set ms. display_name (snd e) \<noteq> [] \<Longrightarrow>
   parse_outbound_mentions ms message
     = Some (foldl rewrite_member
               (subst_all ''@present'' ''<@present|Present Members>''
                  (subst_all ''@all'' ''<@all|All Members>'' message)) ms)"
  by (simp add: parse_outbound_mentions_def replace_subst_all expand_members_fold)

lemma gt_not_across:
  "\<not> prefix ''&gt;'' (c # cs) \<Longrightarrow> \<not> prefix ''&gt;'' (c # cs @ ''&gt;'' @ rest)"
  by (cases cs; cases "tl cs"; cases "tl (tl cs)") auto

lemma newline_not_across:
  "\<not> newline_at (c # cs) \<Longrightarrow> \<not> newline_at (c # cs @ ''&gt;'' @ rest)"
  unfolding newline_at_def
  by (cases cs; cases "tl cs") auto

lemma lazy_until_gt_name:
  "no_gt_or_newline name \<Longrightarrow> lazy_until_gt (name @ ''&gt;'' @ rest) = Some (name, rest)"
proof (induction name)
  case Nil
  then show ?case by simp
next
  case (Cons c cs)
  from Cons.prems have a: "\<not> prefix ''&gt;'' (c # cs @ ''&gt;'' @ rest)"
    and b: "\<not> newline_at (c # cs @ ''&gt;'' @ rest)"
    using gt_not_across [of c cs rest] newline_not_across [of c cs rest] by simp_all
  from Cons have "lazy_until_gt (cs @ ''&gt;'' @ rest) = Some (cs, rest)" by simp
  with a b show ?case by simp
qed

lemma bar_not_word: "\<not> is_word_char CHR ''|''"
  by (simp add: is_word_char_def)

lemma word_char_ascii: "is_word_char c \<Longrightarrow> (of_char c :: nat) < 128"
  by (auto simp: is_word_char_def Let_def)

lemma word_char_at_word: "is_word_char c \<Longrightarrow> word_char_at w (c # s) = 1"
  using word_char_ascii [of c] by (simp add: word_char_at_def)

lemma word_char_at_bar: "word_char_at w (CHR ''|'' # s) = 0"
  by (simp add: word_char_at_def bar_not_word)

lemma word_run_id:
  "\<forall>c \<in> set mid. is_word_char c \<Longrightarrow> word_run w (mid @ CHR ''|'' # rest) = CHR ''|'' # rest"
proof (induction mid)
  case Nil
  show ?case
    by (simp add: word_run.simps [of w "CHR ''|'' # rest"] word_char_at_bar)
next
  case (Cons c mid)
  then have "word_char_at w (c # mid @ CHR ''|'' # rest) = 1"
    by (simp add: word_char_at_word)
  then have "word_run w (c # mid @ CHR ''|'' # rest) = word_run w (mid @ CHR ''|'' # rest)"
    by (simp add: word_run.simps [of w "c # mid @ CHR ''|'' # rest"])
  with Cons show ?case by simp
qed

lemma match_mention_wire:
  assumes "mid \<noteq> []" and "\<forall>c \<in> set mid. is_word_char c" and "no_gt_or_newline name"
  shows "match_mention w (''&lt;@'' @ mid @ ''|'' @ name @ ''&gt;'' @ rest) = Some (name, rest)"
proof -
  obtain c mid' where m: "mid = c # mid'"
    using assms(1) by (cases mid) auto
  have first: "word_char_at w (mid @ ''|'' @ name @ ''&gt;'' @ rest) = 1"
    using assms(2) by (simp add: m word_char_at_word)
  have run: "word_run w (mid @ ''|'' @ name @ ''&gt;'' @ rest) = CHR ''|'' # name @ ''&gt;'' @ rest"
    using word_run_id [OF assms(2), of w "name @ ''&gt;'' @ rest"] by simp
  show ?thesis
    using lazy_until_gt_name [OF assms(3), of rest] first run
    by (simp add: match_mention_def Let_def)
qed

lemma regex_replace_wire:
  assumes "mid \<noteq> []" and "\<forall>c \<in> set mid. is_word_char c" and "no_gt_or_newline name"
  shows "regex_replace_mentions w (''&lt;@'' @ mid @ ''|'' @ name @ ''&gt;'' @ rest)
           = ''<b>'' @ name @ ''</b>'' @ regex_replace_mentions w rest"
proof -
  have "regex_replace_mentions w (CHR ''&'' # ''lt;@'' @ mid @ ''|'' @ name @ ''&gt;'' @ rest)
          = (case match_mention w (CHR ''&'' # ''lt;@'' @ mid @ ''|'' @ name @ ''&gt;'' @ rest) of
               Some (name, rest) \<Rightarrow> ''<b>'' @ name @ ''</b>'' @ regex_replace_mentions w rest
             | None \<Rightarrow> CHR ''&'' # regex_replace_mentions w (''lt;@'' @ mid @ ''|'' @ name @ ''&gt;'' @ rest))"
    by (rule regex_replace_mentions.simps)
  with match_mention_wire [OF assms, of w rest] show ?thesis by simp
qed

text \<open>Text in which no mention starts is kept, also in front of a mention.\<close>

lemma no_start_Cons:
  "\<not> strstr (c # cs) ''&lt;@'' \<Longrightarrow> \<not> prefix ''&lt;@'' (c # cs) \<and> \<not> strstr cs ''&lt;@''"
  by (auto simp: strstr_def split: if_splits)

lemma start_not_across:
  "\<not> prefix ''&lt;@'' (c # cs) \<Longrightarrow> \<not> prefix ''&lt;@'' (c # cs @ CHR ''&'' # s)"
  by (cases cs; cases "tl cs"; cases "tl (tl cs)"; cases "tl (tl (tl cs))") auto

lemma regex_replace_kept:
  "\<not> strstr t ''&lt;@'' \<Longrightarrow> regex_replace_mentions w t = t"
proof (induction t)
  case Nil
  show ?case by simp
next
  case (Cons c cs)
  from no_start_Cons [OF Cons.prems]
  have a: "\<not> prefix ''&lt;@'' (c # cs)" and b: "\<not> strstr cs ''&lt;@''"
    by blast+
  from a have "match_mention w (c # cs) = None"
    unfolding match_mention_def by (simp only: if_False)
  with Cons.IH [OF b] show ?case by simp
qed

lemma regex_replace_front:
  "\<not> strstr pre ''&lt;@'' \<Longrightarrow>
   regex_replace_mentions w (pre @ CHR ''&'' # s) = pre @ regex_replace_mentions w (CHR ''&'' # s)"
proof (induction pre)
  case Nil
  show ?case by simp
next
  case (Cons c cs)
  from no_start_Cons [OF Cons.prems]
  have a: "\<not> prefix ''&lt;@'' (c # cs)" and b: "\<not> strstr cs ''&lt;@''"
    by blast+
  from start_not_across [OF a, of s] have "match_mention w (c # cs @ CHR ''&'' # s) = None"
    unfolding match_mention_def by (simp only: if_False)
  with Cons.IH [OF b] show ?case by simp
qed

lemma regex_replace_in_text:
  assumes "\<not> strstr pre ''&lt;@''"
      and "mid \<noteq> []" and "\<forall>c \<in> set mid. is_word_char c" and "no_gt_or_newline name"
  shows "regex_replace_mentions w (pre @ ''&lt;@'' @ mid @ ''|'' @ name @ ''&gt;'' @ rest)
           = pre @ ''<b>'' @ name @ ''</b>'' @ regex_replace_mentions w rest"
proof -
  have "regex_replace_mentions w (pre @ CHR ''&'' # ''lt;@'' @ mid @ ''|'' @ name @ ''&gt;'' @ rest)
          = pre @ regex_replace_mentions w (CHR ''&'' # ''lt;@'' @ mid @ ''|'' @ name @ ''&gt;'' @ rest)"
    by (rule regex_replace_front [OF assms(1)])
  moreover have "regex_replace_mentions w (''&lt;@'' @ mid @ ''|'' @ name @ ''&gt;'' @ rest)
          = ''<b>'' @ name @ ''</b>'' @ regex_replace_mentions w rest"
    by (rule regex_replace_wire [OF assms(2-4)])
  ultimately show ?thesis by simp
qed

lemma plain_char_facts:
  assumes "plain_char c"
  shows "escape_char c = [c]" and "c \<noteq> CHR 0xC2" and "\<not> newline_at (c # s)"
    and "\<not> prefix ''&gt;'' (c # s)"
proof -
  have n: "(32 :: nat) \<le> of_char c" "(of_char c :: nat) \<le> 126"
    using assms by (simp_all add: plain_char_def)
  have neq: "c \<noteq> d" if "(of_char d :: nat) < 32 \<or> 126 < (of_char d :: nat)" for d
    using n that by auto
  show "c \<noteq> CHR 0xC2" by (rule neq) simp
  have "c \<noteq> CHR 0x0A" "c \<noteq> CHR 0x0B" "c \<noteq> CHR 0x0C" "c \<noteq> CHR 0x0D" "c \<noteq> CHR 0xE2"
    by (rule neq, simp)+
  with \<open>c \<noteq> CHR 0xC2\<close> show "\<not> newline_at (c # s)"
    by (simp add: newline_at_def)
  show "\<not> prefix ''&gt;'' (c # s)"
    using assms by (auto simp: plain_char_def)
  have "\<not> escaped_control (of_char c)"
    using n by (simp add: escaped_control_def)
  then show "escape_char c = [c]"
    using assms by (simp add: escape_char_def plain_char_def)
qed

lemma plain_no_gt_or_newline: "\<forall>c \<in> set name. plain_char c \<Longrightarrow> no_gt_or_newline name"
proof (induction name)
  case Nil
  then show ?case by simp
next
  case (Cons c cs)
  then have "plain_char c" and "no_gt_or_newline cs" by simp_all
  with plain_char_facts(3,4) [of c cs] show ?case
    by (simp del: prefix_code)
qed

lemma escape_plain:
  "\<forall>c \<in> set w. plain_char c \<Longrightarrow> g_markup_escape_text (w @ t) = w @ g_markup_escape_text t"
proof (induction w)
  case Nil
  then show ?case by simp
next
  case (Cons c w)
  then have c: "escape_char c = [c]" "c \<noteq> CHR 0xC2"
    by (simp_all add: plain_char_facts)
  show ?case
  proof (cases "w @ t")
    case Nil
    then show ?thesis by (simp add: c)
  next
    case (Cons d r)
    have "g_markup_escape_text (c # d # r) = c # g_markup_escape_text (d # r)"
      by (simp add: c)
    with Cons Cons.IH Cons.prems show ?thesis
      by (metis Cons_eq_appendI list.set_intros(2))
  qed
qed

lemma word_char_plain: "is_word_char c \<Longrightarrow> plain_char c"
  by (auto simp: is_word_char_def plain_char_def Let_def)

lemma subst_all_absent: "a \<noteq> [] \<Longrightarrow> hd a \<notin> set s \<Longrightarrow> subst_all a b s = s"
  by (induction s) (auto simp: prefix_def neq_Nil_conv)

lemma subst_all_self: "a \<noteq> [] \<Longrightarrow> subst_all a b a = b"
  by (cases a) auto

lemma escape_chime_mention:
  assumes "\<forall>c \<in> set mid. is_word_char c" and "\<forall>c \<in> set name. plain_char c"
  shows "g_markup_escape_text (chime_mention mid name) = ''&lt;@'' @ mid @ ''|'' @ name @ ''&gt;''"
proof -
  have "plain_char CHR ''@''" "plain_char CHR ''|''"
    by (simp_all add: plain_char_def)
  with assms word_char_plain have p: "\<forall>c \<in> set (''@'' @ mid @ ''|'' @ name). plain_char c"
    by auto
  have "g_markup_escape_text (chime_mention mid name)
          = escape_char CHR ''<'' @ g_markup_escape_text ((''@'' @ mid @ ''|'' @ name) @ ''>'')"
    by (simp add: chime_mention_def)
  also have "\<dots> = escape_char CHR ''<'' @ (''@'' @ mid @ ''|'' @ name) @ g_markup_escape_text ''>''"
    using escape_plain [OF p, of "''>''"] by simp
  finally show ?thesis
    by (simp add: escape_char_def)
qed

lemma escaped_mention_displayed:
  assumes "mid \<noteq> []" and "\<forall>c \<in> set mid. is_word_char c" and "\<forall>c \<in> set name. plain_char c"
  shows "snd (parse_inbound_mentions w pid (g_markup_escape_text (chime_mention mid name)))
           = ''<b>'' @ name @ ''</b>''"
proof -
  have "regex_replace_mentions w (''&lt;@'' @ mid @ ''|'' @ name @ ''&gt;'' @ [])
          = ''<b>'' @ name @ ''</b>'' @ regex_replace_mentions w []"
    by (rule regex_replace_wire [OF assms(1,2) plain_no_gt_or_newline [OF assms(3)]])
  then show ?thesis
    by (simp add: parse_inbound_mentions_def escape_chime_mention [OF assms(2,3)])
qed

text \<open>Outbound: a pass for a name that does not occur changes nothing.\<close>

lemma rewrite_absent:
  assumes "\<not> strstr t (display_name (snd e))"
  shows "rewrite_member t e = t"
proof -
  from assms have "display_name (snd e) \<noteq> []"
    by (simp add: strstr_def)
  moreover from assms have "split_first (display_name (snd e)) t = None"
    by (cases "split_first (display_name (snd e)) t") (simp_all add: strstr_def)
  ultimately show ?thesis
    unfolding rewrite_member_def by (rule split_first_None_subst)
qed

lemma rewrite_members_absent:
  "\<forall>e \<in> set ms. \<not> strstr t (display_name (snd e)) \<Longrightarrow> foldl rewrite_member t ms = t"
  by (induction ms) (simp_all add: rewrite_absent)

lemma parse_outbound_keywords_only:
  assumes "\<forall>e \<in> set ms. \<not> strstr (subst_all ''@present'' ''<@present|Present Members>''
                                       (subst_all ''@all'' ''<@all|All Members>'' message))
                               (display_name (snd e))"
  shows "parse_outbound_mentions ms message
           = Some (subst_all ''@present'' ''<@present|Present Members>''
                     (subst_all ''@all'' ''<@all|All Members>'' message))"
proof -
  from assms have "\<forall>e \<in> set ms. display_name (snd e) \<noteq> []"
    by (auto simp: strstr_def)
  then show ?thesis
    by (simp add: parse_outbound_mentions_subst rewrite_members_absent [OF assms])
qed

lemma parse_outbound_one_name:
  assumes "name \<noteq> []" and "CHR ''@'' \<notin> set name" and "display_name m = name"
      and "\<forall>e \<in> set before. \<not> strstr name (display_name (snd e))"
      and "\<forall>e \<in> set after. \<not> strstr (chime_mention mid name) (display_name (snd e))"
  shows "parse_outbound_mentions (before @ [(mid, m)] @ after) name = Some (chime_mention mid name)"
proof -
  have ne: "\<forall>e \<in> set (before @ (mid, m) # after). display_name (snd e) \<noteq> []"
    using assms by (auto simp: strstr_def)
  have k1: "subst_all ''@all'' ''<@all|All Members>'' name = name"
    by (rule subst_all_absent) (simp_all add: assms(2))
  have k2: "subst_all ''@present'' ''<@present|Present Members>'' name = name"
    by (rule subst_all_absent) (simp_all add: assms(2))
  have f: "foldl rewrite_member name (before @ (mid, m) # after) = chime_mention mid name"
    using assms(1,3)
    by (simp add: rewrite_members_absent [OF assms(4)] rewrite_members_absent [OF assms(5)]
          rewrite_member_def subst_all_self)
  from parse_outbound_mentions_subst [OF ne, of name] f show ?thesis
    by (simp add: k1 k2)
qed

lemma ex_word: "\<forall>c \<in> set ''a1''. is_word_char c"
  by (simp add: is_word_char_def)

lemma ex_plain: "\<forall>c \<in> set ''Jo''. plain_char c"
  by (simp add: plain_char_def)

lemma ex_name: "no_gt_or_newline ''Jo''"
  by (simp add: newline_at_def)

lemma ex_outbound:
  "foldl rewrite_member
     (subst_all ''@present'' ''<@present|Present Members>''
        (subst_all ''@all'' ''<@all|All Members>'' ''@all Jo'')) [(''a1'', ex_member)]
   = ''<@all|All Members> <@a1|Jo>''"
  by (simp add: rewrite_member_def ex_member_def chime_mention_def)

text \<open>
  An id with a letter beyond ASCII: \<open>U+00E9\<close>, the bytes \<open>C3 A9\<close>, is a word character for
  the example environment, and the mention is matched.
\<close>

lemma ex_letter: "utf8_code_point [CHR 0xC3, CHR 0xA9] = 0xE9"
  by (simp add: utf8_code_point_def)

lemma ex_unicode_id:
  "regex_replace_mentions (ucp_word ex_env) (''&lt;@'' @ [CHR 0xC3, CHR 0xA9] @ ''|Jo&gt;'') = ''<b>Jo</b>''"
  "regex_replace_mentions (\<lambda>n. False) (''&lt;@'' @ [CHR 0xC3, CHR 0xA9] @ ''|Jo&gt;'')
     = ''&lt;@'' @ [CHR 0xC3, CHR 0xA9] @ ''|Jo&gt;''"
  by (simp_all add: match_mention_def word_char_at_def utf8_length_def ex_letter ex_env_def
        word_run.simps [of _ "CHR 0xC3 # _"] word_run.simps [of _ "CHR ''|'' # _"]
        is_word_char_def newline_at_def)

subsection \<open>Delivery, deduplication and buffering\<close>

lemma trace_set_chat [simp]: "trace (set_chat p chat cxn) = trace cxn"
  by (simp add: set_chat_def)

lemma heap_set_chat [simp]: "heap (set_chat p chat cxn) = (heap cxn)(p \<mapsto> chat)"
  by (simp add: set_chat_def)

lemma trace_emit_host [simp]: "trace (emit_host c cxn) = trace cxn @ [c]"
  by (simp add: emit_host_def)

lemma heap_emit_host [simp]: "heap (emit_host c cxn) = heap cxn"
  by (simp add: emit_host_def)

lemma heap_update_last_msg [simp]:
  "heap (chime_update_last_msg cxn b i t m) = heap cxn"
  "trace (chime_update_last_msg cxn b i t m) = trace cxn"
  by (simp_all add: chime_update_last_msg_def)

lemma serv_got_chat_in_cong:
  "profile_id cxn' = profile_id cxn \<Longrightarrow> conn_display_name cxn' = conn_display_name cxn \<Longrightarrow>
   members chat' = members chat \<Longrightarrow> conv chat' = conv chat \<Longrightarrow>
   serv_got_chat_in env cxn' chat' content sender t = serv_got_chat_in env cxn chat content sender t"
  by (simp add: serv_got_chat_in_def)

lemma fixed_set_chat [simp]:
  "profile_id (set_chat p chat cxn) = profile_id cxn"
  "conn_display_name (set_chat p chat cxn) = conn_display_name cxn"
  "last_msgs (set_chat p chat cxn) = last_msgs cxn"
  by (simp_all add: set_chat_def)

lemma fixed_update_last_msg [simp]:
  "profile_id (chime_update_last_msg cxn b i t m) = profile_id cxn"
  "conn_display_name (chime_update_last_msg cxn b i t m) = conn_display_name cxn"
  by (simp_all add: chime_update_last_msg_def)

lemma parse_incoming_msg_delivers:
  assumes "heap cxn p = Some chat"
      and "get_string node ''Content'' = Some content"
      and "get_string node ''Sender'' = Some sender"
  shows "parse_incoming_msg env cxn p node t
           = Some (emit_host (serv_got_chat_in env cxn chat content sender t) cxn)"
  using assms by (simp add: parse_incoming_msg_def)

lemma chat_deliver_msg_suppressed:
  assumes "heap cxn p = Some chat" and "get_string node ''MessageId'' = Some m"
      and "m \<in> sent_msgs chat"
  shows "chat_deliver_msg env cxn p node t
           = Some (set_chat p (chat\<lparr>sent_msgs := sent_msgs chat - {m}\<rparr>) cxn)"
  using assms by (simp add: chat_deliver_msg_def)

lemma chat_deliver_msg_passes:
  assumes "heap cxn p = Some chat" and "get_string node ''MessageId'' = Some m"
      and "m \<notin> sent_msgs chat"
  shows "chat_deliver_msg env cxn p node t = parse_incoming_msg env cxn p node t"
  using assms by (simp add: chat_deliver_msg_def)

lemma send_msg_cb_records:
  assumes "heap cxn p = Some chat"
      and "SOUP_STATUS_IS_SUCCESSFUL (status_code msg)"
      and "json_object_get_member (json_node_get_object node) ''Message'' = Some mn"
      and "get_string (Some mn) ''MessageId'' = Some m"
      and "get_string (Some mn) ''Content'' = Some content"
      and "get_string (Some mn) ''Sender'' = Some sender"
      and "\<not> already_seen env cxn chat (created_on env (Some mn))"
  shows "send_msg_cb env cxn p msg node
           = Some (emit_host
                     (serv_got_chat_in env cxn chat content sender (fst (created_on env (Some mn))))
                     (set_chat p (chat\<lparr>sent_msgs := insert m (sent_msgs chat)\<rparr>) cxn))"
proof -
  let ?chat1 = "chat\<lparr>sent_msgs := insert m (sent_msgs chat)\<rparr>"
  let ?c = "set_chat p ?chat1 cxn"
  have "send_msg_cb env cxn p msg node
          = parse_incoming_msg env ?c p (Some mn) (fst (created_on env (Some mn)))"
    using assms(1-4,7) by (simp add: send_msg_cb_def Let_def)
  also have "\<dots> = Some (emit_host
                (serv_got_chat_in env ?c ?chat1 content sender (fst (created_on env (Some mn)))) ?c)"
    by (rule parse_incoming_msg_delivers) (simp_all add: assms(5,6))
  also have "serv_got_chat_in env ?c ?chat1 content sender (fst (created_on env (Some mn)))
               = serv_got_chat_in env cxn chat content sender (fst (created_on env (Some mn)))"
    by (rule serv_got_chat_in_cong) simp_all
  finally show ?thesis .
qed

lemma chat_msg_jugg_cb_buffers:
  assumes "heap cxn p = Some chat" and "messages (msgs chat) = Some buffer"
      and "json_object_get_member (json_node_get_object data_node) ''record'' = Some r"
      and "get_string (Some r) ''MessageId'' = Some m"
  shows "chat_msg_jugg_cb env cxn p data_node
           = Some (True, set_chat p (chat\<lparr>msgs := (msgs chat)\<lparr>messages := Some (buffer(m \<mapsto> r))\<rparr>\<rparr>) cxn)"
  using assms by (simp add: chat_msg_jugg_cb_def)

lemma chat_msg_jugg_cb_quiet:
  assumes "heap cxn p = Some chat" and "messages (msgs chat) = Some buffer"
  shows "\<exists>res. chat_msg_jugg_cb env cxn p data_node = Some res \<and> trace (snd res) = trace cxn"
  using assms by (auto simp: chat_msg_jugg_cb_def Let_def split: option.splits)

lemma chat_msg_jugg_cb_delivery_needs_no_buffer:
  assumes "chat_msg_jugg_cb env cxn p data_node = Some res" and "trace (snd res) \<noteq> trace cxn"
  shows "\<exists>chat. heap cxn p = Some chat \<and> messages (msgs chat) = None"
  using assms by (auto simp: chat_msg_jugg_cb_def Let_def split: option.splits if_splits)

lemma chat_msg_jugg_cb_passes:
  assumes "heap cxn p = Some chat" and "messages (msgs chat) = None"
      and "json_object_get_member (json_node_get_object data_node) ''record'' = Some r"
      and "get_string (Some r) ''MessageId'' = Some m"
      and "parse_time env (Some r) ''CreatedOn'' = Some (ts, tv)"
  shows "chat_msg_jugg_cb env cxn p data_node
           = map_option (Pair True)
               (chat_deliver_msg env (chime_update_last_msg cxn True (chat_room_id chat) ts m) p
                  (Some r) (fst tv))"
  using assms by (simp add: chat_msg_jugg_cb_def)

lemma ex_record_fields:
  "get_string (Some ex_record) ''MessageId'' = Some ''m1''"
  "get_string (Some ex_record) ''Content'' = Some ''hi''"
  "get_string (Some ex_record) ''Sender'' = Some ''me''"
  "parse_time ex_env (Some ex_record) ''CreatedOn'' = Some (''2017'', (4, 0))"
  "created_on ex_env (Some ex_record) = (4, 0)"
  by (simp_all add: ex_record_def ex_env_def created_on_def)

lemma ex_echo:
  "serv_got_chat_in ex_env ex_conn ex_chat ''hi'' ''me'' t
     = ServGotChatIn 1 ''Me'' {PURPLE_MESSAGE_SEND} ''hi'' t"
  by (simp add: serv_got_chat_in_def ex_conn_def ex_chat_def parse_inbound_mentions_def
        escape_char_def escaped_control_def match_mention_def)

lemma ex_passed:
  "chat_msg_jugg_cb ex_env ex_conn 0 (Some (JObject [(''record'', ex_record)]))
     = Some (True, emit_host (ServGotChatIn 1 ''Me'' {PURPLE_MESSAGE_SEND} ''hi'' 4)
                     (chime_update_last_msg ex_conn True ''r1'' ''2017'' ''m1''))"
proof -
  have h: "heap ex_conn 0 = Some ex_chat" "sent_msgs ex_chat = {}" "messages (msgs ex_chat) = None"
    "chat_room_id ex_chat = ''r1''"
    by (simp_all add: ex_conn_def ex_chat_def)
  let ?u = "chime_update_last_msg ex_conn True ''r1'' ''2017'' ''m1''"
  have "serv_got_chat_in ex_env ?u ex_chat ''hi'' ''me'' 4 = serv_got_chat_in ex_env ex_conn ex_chat ''hi'' ''me'' 4"
    by (rule serv_got_chat_in_cong) simp_all
  then show ?thesis
    by (simp add: chat_msg_jugg_cb_def h ex_record_fields chat_deliver_msg_def
          parse_incoming_msg_def ex_echo)
qed

subsection \<open>Membership pages\<close>

lemma requests_of_append [simp]: "requests_of (xs @ ys) = requests_of xs @ requests_of ys"
  by (induction xs rule: requests_of.induct) auto

lemma fetch_unchanged_refl: "heap cxn p = Some chat \<Longrightarrow> fetch_unchanged p cxn cxn"
  by (simp add: fetch_unchanged_def)

lemma fetch_unchanged_trans:
  "fetch_unchanged p a b \<Longrightarrow> fetch_unchanged p b c \<Longrightarrow> fetch_unchanged p a c"
  by (auto simp: fetch_unchanged_def split: option.splits)

lemma add_chat_member_unchanged:
  assumes "heap cxn p = Some chat"
  shows "\<exists>b cxn'. add_chat_member cxn p node = Some (b, cxn') \<and> fetch_unchanged p cxn cxn'"
proof -
  have "fetch_unchanged p cxn cxn" using assms by (rule fetch_unchanged_refl)
  moreover have "fetch_unchanged p cxn
      (emit_host (PurpleConvChatAddUser (conv chat) mail flags (members_done (msgs chat)))
         (set_chat p (chat\<lparr>members := (members chat)(ident \<mapsto> m)\<rparr>) cxn))" for mail flags ident m
    using assms by (simp add: fetch_unchanged_def emit_host_def set_chat_def ready_calls_def)
  moreover have "fetch_unchanged p cxn
      (emit_host (PurpleConvChatUserSetFlags (conv chat) mail flags) cxn)" for mail flags
    using assms by (simp add: fetch_unchanged_def emit_host_def ready_calls_def)
  ultimately show ?thesis
    using assms
    by (auto simp: add_chat_member_def Let_def split: option.splits if_splits)
qed

lemma members_foreach_unchanged:
  "heap cxn p = Some chat \<Longrightarrow>
   \<exists>cxn'. members_foreach cxn p ns = Some cxn' \<and> fetch_unchanged p cxn cxn'"
proof (induction ns arbitrary: cxn chat)
  case Nil
  then show ?case by (auto intro: fetch_unchanged_refl)
next
  case (Cons n ns)
  from add_chat_member_unchanged [OF Cons.prems, of "Some n"]
  obtain b c1 where s1: "add_chat_member cxn p (Some n) = Some (b, c1)"
    and u1: "fetch_unchanged p cxn c1" by blast
  from u1 obtain chat1 where "heap c1 p = Some chat1"
    by (auto simp: fetch_unchanged_def split: option.splits)
  from Cons.IH [OF this] obtain c2 where s2: "members_foreach c1 p ns = Some c2"
    and u2: "fetch_unchanged p c1 c2" by blast
  from s1 s2 have "members_foreach cxn p (n # ns) = Some c2"
    by (simp add: one_member_cb_def)
  with fetch_unchanged_trans [OF u1 u2] show ?case by blast
qed

lemma ready_calls_simps [simp]:
  "ready_calls p (set_chat q chat cxn) = ready_calls p cxn"
  "ready_calls p (emit_host (QueueHttpRequest r) cxn) = ready_calls p cxn"
  "ready_calls p (emit_host (ChimeCompleteMessages p) cxn) = Suc (ready_calls p cxn)"
  by (simp_all add: ready_calls_def set_chat_def emit_host_def)

lemma set_chat_fields [simp]:
  "messaging_url (set_chat q chat cxn) = messaging_url cxn"
  "next_handle (set_chat q chat cxn) = next_handle cxn"
  "pending (set_chat q chat cxn) = pending cxn"
  "subscriptions (set_chat q chat cxn) = subscriptions cxn"
  by (simp_all add: set_chat_def)

lemma fetch_chat_memberships_request:
  assumes "heap cxn p = Some chat"
  shows "fetch_chat_memberships cxn p token
           = Some (set_chat p (chat\<lparr>members_msg := Some (next_handle cxn)\<rparr>)
                    (emit_host
                       (QueueHttpRequest
                          (membership_request (messaging_url cxn) (chat_room_id chat) token
                             (next_handle cxn) p))
                       (cxn\<lparr>next_handle := Suc (next_handle cxn),
                            pending := pending cxn
                              @ [membership_request (messaging_url cxn) (chat_room_id chat) token
                                   (next_handle cxn) p]\<rparr>)))"
  using assms
  by (simp add: fetch_chat_memberships_def chime_connection_queue_http_request_def
        membership_request_def soup_uri_new_printf_def Let_def)

lemma fetch_members_cb_members:
  assumes "heap cxn p = Some chat"
  shows "\<exists>c1 chat1.
           heap c1 p = Some chat1 \<and>
           fetch_unchanged p (set_chat p (chat\<lparr>members_msg := None\<rparr>) cxn) c1 \<and>
           fetch_members_cb cxn p msg node
             = (case get_string node ''NextToken'' of
                  Some next_token \<Rightarrow> fetch_chat_memberships c1 p (Some next_token)
                | None \<Rightarrow>
                    (let c2 = set_chat p (chat1\<lparr>msgs := (msgs chat1)\<lparr>members_done := True\<rparr>\<rparr>) c1
                     in if msgs_done (msgs chat1) then Some (chime_complete_messages c2 p)
                        else Some c2))"
proof -
  let ?c0 = "set_chat p (chat\<lparr>members_msg := None\<rparr>) cxn"
  let ?arr = "json_node_get_array (json_object_get_member (json_node_get_object node) ''RoomMemberships'')"
  have h0: "heap ?c0 p = Some (chat\<lparr>members_msg := None\<rparr>)"
    by (simp add: set_chat_def)
  obtain c1 where c1: "(case ?arr of None \<Rightarrow> Some ?c0 | Some elements \<Rightarrow> members_foreach ?c0 p elements) = Some c1"
    and u: "fetch_unchanged p ?c0 c1"
  proof (cases ?arr)
    case None
    with fetch_unchanged_refl [OF h0] that show ?thesis by simp
  next
    case (Some elements)
    with members_foreach_unchanged [OF h0, of elements] that show ?thesis by auto
  qed
  from u obtain chat1 where h1: "heap c1 p = Some chat1"
    by (auto simp: fetch_unchanged_def split: option.splits)
  have "fetch_members_cb cxn p msg node
             = (case get_string node ''NextToken'' of
                  Some next_token \<Rightarrow> fetch_chat_memberships c1 p (Some next_token)
                | None \<Rightarrow>
                    (let c2 = set_chat p (chat1\<lparr>msgs := (msgs chat1)\<lparr>members_done := True\<rparr>\<rparr>) c1
                     in if msgs_done (msgs chat1) then Some (chime_complete_messages c2 p)
                        else Some c2))"
    using assms c1 h1 by (simp add: fetch_members_cb_def Let_def split: option.splits)
  with h1 u show ?thesis by blast
qed

lemma fetch_members_cb_next:
  assumes "heap cxn p = Some chat" and "get_string node ''NextToken'' = Some t"
  shows "\<exists>cxn' chat'.
           fetch_members_cb cxn p msg node = Some cxn' \<and> heap cxn' p = Some chat' \<and>
           msgs chat' = msgs chat \<and> chat_room_id chat' = chat_room_id chat \<and>
           members_msg chat' = Some (next_handle cxn) \<and>
           messaging_url cxn' = messaging_url cxn \<and> next_handle cxn' = Suc (next_handle cxn) \<and>
           ready_calls p cxn' = ready_calls p cxn \<and>
           requests_of (trace cxn')
             = requests_of (trace cxn)
               @ [membership_request (messaging_url cxn) (chat_room_id chat) (Some t) (next_handle cxn) p]"
proof -
  from fetch_members_cb_members [OF assms(1), of msg node] assms(2)
  obtain c1 chat1 where h1: "heap c1 p = Some chat1"
    and u: "fetch_unchanged p (set_chat p (chat\<lparr>members_msg := None\<rparr>) cxn) c1"
    and f: "fetch_members_cb cxn p msg node = fetch_chat_memberships c1 p (Some t)"
    by auto
  from u h1 have k: "msgs chat1 = msgs chat" "chat_room_id chat1 = chat_room_id chat"
      "messaging_url c1 = messaging_url cxn" "next_handle c1 = next_handle cxn"
      "requests_of (trace c1) = requests_of (trace cxn)" "ready_calls p c1 = ready_calls p cxn"
    by (simp_all add: fetch_unchanged_def)
  show ?thesis
    unfolding f fetch_chat_memberships_request [OF h1]
    using k(6) by (simp add: k(1-5) emit_host_def ready_calls_def)
qed

lemma fetch_members_cb_last:
  assumes "heap cxn p = Some chat" and "get_string node ''NextToken'' = None"
  shows "\<exists>cxn' chat'.
           fetch_members_cb cxn p msg node = Some cxn' \<and> heap cxn' p = Some chat' \<and>
           msgs chat' = (msgs chat)\<lparr>members_done := True\<rparr> \<and>
           members_msg chat' = None \<and>
           ready_calls p cxn' = ready_calls p cxn + (if msgs_done (msgs chat) then 1 else 0) \<and>
           requests_of (trace cxn') = requests_of (trace cxn)"
proof -
  from fetch_members_cb_members [OF assms(1), of msg node] assms(2)
  obtain c1 chat1 where h1: "heap c1 p = Some chat1"
    and u: "fetch_unchanged p (set_chat p (chat\<lparr>members_msg := None\<rparr>) cxn) c1"
    and f: "fetch_members_cb cxn p msg node
              = (let c2 = set_chat p (chat1\<lparr>msgs := (msgs chat1)\<lparr>members_done := True\<rparr>\<rparr>) c1
                 in if msgs_done (msgs chat1) then Some (chime_complete_messages c2 p) else Some c2)"
    by auto
  from u h1 have k: "msgs chat1 = msgs chat" "members_msg chat1 = None"
      "requests_of (trace c1) = requests_of (trace cxn)" "ready_calls p c1 = ready_calls p cxn"
    by (simp_all add: fetch_unchanged_def)
  show ?thesis
    unfolding f
    by (simp add: k Let_def chime_complete_messages_def)
qed

lemma members_pages_append:
  "members_pages cxn p (xs @ ys) = Option.bind (members_pages cxn p xs) (\<lambda>c. members_pages c p ys)"
  by (induction xs arbitrary: cxn) (auto split: option.splits)

lemma members_pages_with_tokens:
  assumes "heap cxn p = Some chat"
      and "\<forall>page \<in> set pages. get_string (snd page) ''NextToken'' \<noteq> None"
  shows "\<exists>c1 chat1.
           members_pages cxn p pages = Some c1 \<and> heap c1 p = Some chat1 \<and>
           msgs chat1 = msgs chat \<and> chat_room_id chat1 = chat_room_id chat \<and>
           messaging_url c1 = messaging_url cxn \<and>
           ready_calls p c1 = ready_calls p cxn \<and>
           requests_of (trace c1)
             = requests_of (trace cxn)
               @ map (page_request (messaging_url cxn) (chat_room_id chat) p)
                   (enumerate (next_handle cxn) pages)"
  using assms
proof (induction pages arbitrary: cxn chat)
  case Nil
  then show ?case by simp
next
  case (Cons page pages)
  from Cons.prems(2) obtain t where t: "get_string (snd page) ''NextToken'' = Some t"
    by auto
  from fetch_members_cb_next [OF Cons.prems(1) t, of "fst page"]
  obtain cxn' chat' where s: "fetch_members_cb cxn p (fst page) (snd page) = Some cxn'"
    and h: "heap cxn' p = Some chat'"
    and k: "msgs chat' = msgs chat" "chat_room_id chat' = chat_room_id chat"
      "messaging_url cxn' = messaging_url cxn" "next_handle cxn' = Suc (next_handle cxn)"
      "ready_calls p cxn' = ready_calls p cxn"
    and r: "requests_of (trace cxn')
             = requests_of (trace cxn)
               @ [membership_request (messaging_url cxn) (chat_room_id chat) (Some t) (next_handle cxn) p]"
    by blast
  from Cons.prems(2) have "\<forall>page \<in> set pages. get_string (snd page) ''NextToken'' \<noteq> None"
    by simp
  from Cons.IH [OF h this]
  obtain c1 chat1 where i: "members_pages cxn' p pages = Some c1" "heap c1 p = Some chat1"
      "msgs chat1 = msgs chat'" "chat_room_id chat1 = chat_room_id chat'"
      "messaging_url c1 = messaging_url cxn'" "ready_calls p c1 = ready_calls p cxn'"
    and r1: "requests_of (trace c1)
             = requests_of (trace cxn')
               @ map (page_request (messaging_url cxn') (chat_room_id chat') p)
                   (enumerate (next_handle cxn') pages)"
    by blast
  have "members_pages cxn p (page # pages) = Some c1"
    by (simp add: s i(1))
  moreover have "requests_of (trace c1)
             = requests_of (trace cxn)
               @ map (page_request (messaging_url cxn) (chat_room_id chat) p)
                   (enumerate (next_handle cxn) (page # pages))"
    by (simp add: r1 r k page_request_def t)
  ultimately show ?case
    using i(2-6) k by auto
qed

lemma ex_page_token: "get_string (snd (ex_page token)) ''NextToken'' = token"
  by (cases token) (simp_all add: ex_page_def)

lemma ex_joining_fields:
  "heap ex_joining 0 = Some ex_joining_chat"
  "msgs_done (msgs ex_joining_chat)"
  "ready_calls 0 ex_joining = 0"
  "requests_of (trace ex_joining) = []"
  "messaging_url ex_joining = ''https://m''"
  "chat_room_id ex_joining_chat = ''r1''"
  "next_handle ex_joining = 0"
  by (simp_all add: ex_joining_def ex_joining_chat_def ex_chat_def ex_conn_def ready_calls_def)

subsection \<open>Joining\<close>

lemma do_join_chat_existing:
  "chats_by_room cxn r = Some p \<Longrightarrow> do_join_chat cxn (Some r) = Some (cxn, Some p)"
  by (simp add: do_join_chat_def)

lemma do_join_chat_new:
  assumes "chats_by_room cxn r = None"
  shows "\<exists>cxn1. do_join_chat cxn (Some r) = Some (cxn1, Some (next_ptr cxn)) \<and>
               chats_by_room cxn1 r = Some (next_ptr cxn) \<and>
               live_chats cxn1 (chat_id cxn + 1) = Some (next_ptr cxn) \<and>
               chat_id cxn1 = chat_id cxn + 1 \<and>
               length (subscriptions cxn1) = length (subscriptions cxn) + 2 \<and>
               length (pending cxn1) = length (pending cxn) + 2"
  using assms
  by (simp add: do_join_chat_def Let_def fetch_messages_def fetch_chat_memberships_def
        chime_connection_queue_http_request_def chime_jugg_subscribe_def
        set_chat_def emit_host_def)

subsection \<open>Leaving\<close>


lemma ex_join: "do_join_chat ex_idle (Some ex_room) = Some (ex_joined, Some 0)"
  by (simp add: do_join_chat_def Let_def fetch_messages_def fetch_chat_memberships_def
        chime_connection_queue_http_request_def chime_jugg_subscribe_def
        set_chat_def emit_host_def ex_idle_def ex_joined_def ex_joined_chat_def ex_room_def
        ex_history_request_def membership_request_def soup_uri_new_printf_def
        room_message_sub_def room_membership_sub_def suffix_to_prefix)


subsection \<open>The device channel after a chat was left\<close>








section \<open>Results\<close>

text \<open>
  C1. A local send that succeeds and records the id \<open>m\<close> of its message (the response has a
  \<open>Message\<close> with \<open>MessageId\<close> \<open>m\<close>, \<open>Content\<close> and \<open>Sender\<close>, and the last-seen marker is older
  than the message) delivers the message to the host once, as the local echo, and puts \<open>m\<close>
  into the table of sent messages. A live record with \<open>MessageId\<close> \<open>m\<close> that is delivered
  afterwards (by \<open>chat_deliver_msg\<close>, also when it comes through \<open>chat_msg_jugg_cb\<close> after the
  history is complete) makes no call to the host and takes \<open>m\<close> out of the table: the host
  has had exactly one delivery. A later record whose id is not in the table, \<open>m\<close> itself
  included, goes to \<open>parse_incoming_msg\<close> like any message and is delivered.
\<close>

theorem sent_message_echoed_once:
  fixes cxn :: ChimeConnection and chat :: chime_chat and env :: chat_env
    and content sender m :: string and mn :: json and p :: chat_ptr
  defines "echo \<equiv> serv_got_chat_in env cxn chat content sender (fst (created_on env (Some mn)))"
  defines "cxn1 \<equiv> emit_host echo (set_chat p (chat\<lparr>sent_msgs := insert m (sent_msgs chat)\<rparr>) cxn)"
  defines "cxn2 \<equiv> set_chat p (chat\<lparr>sent_msgs := sent_msgs chat - {m}\<rparr>) cxn1"
  assumes "heap cxn p = Some chat"
      and "SOUP_STATUS_IS_SUCCESSFUL (status_code msg)"
      and "json_object_get_member (json_node_get_object node) ''Message'' = Some mn"
      and "get_string (Some mn) ''MessageId'' = Some m"
      and "get_string (Some mn) ''Content'' = Some content"
      and "get_string (Some mn) ''Sender'' = Some sender"
      and "\<not> already_seen env cxn chat (created_on env (Some mn))"
      and "get_string (Some r) ''MessageId'' = Some m"
  shows "send_msg_cb env cxn p msg node = Some cxn1 \<and>
         chat_deliver_msg env cxn1 p (Some r) t = Some cxn2 \<and>
         trace cxn2 = trace cxn @ [echo] \<and>
         (messages (msgs chat) = None \<and>
          json_object_get_member (json_node_get_object data_node) ''record'' = Some r \<and>
          parse_time env (Some r) ''CreatedOn'' = Some (ts, tv) \<longrightarrow>
            chat_msg_jugg_cb env cxn1 p data_node
              = Some (True, set_chat p (chat\<lparr>sent_msgs := sent_msgs chat - {m}\<rparr>)
                              (chime_update_last_msg cxn1 True (chat_room_id chat) ts m))) \<and>
         (\<forall>r2 m2 t2. get_string (Some r2) ''MessageId'' = Some m2 \<and> m2 \<notin> sent_msgs chat - {m} \<longrightarrow>
            chat_deliver_msg env cxn2 p (Some r2) t2 = parse_incoming_msg env cxn2 p (Some r2) t2) \<and>
         (\<forall>r2 t2 content2 sender2.
            get_string (Some r2) ''MessageId'' = Some m \<and>
            get_string (Some r2) ''Content'' = Some content2 \<and>
            get_string (Some r2) ''Sender'' = Some sender2 \<longrightarrow>
            map_option trace (chat_deliver_msg env cxn2 p (Some r2) t2)
              = Some (trace cxn @ [echo, serv_got_chat_in env cxn chat content2 sender2 t2]))"
proof -
  let ?chat1 = "chat\<lparr>sent_msgs := insert m (sent_msgs chat)\<rparr>"
  let ?chat2 = "chat\<lparr>sent_msgs := sent_msgs chat - {m}\<rparr>"
  have h1: "heap cxn1 p = Some ?chat1"
    by (simp add: cxn1_def)
  have h2: "heap cxn2 p = Some ?chat2"
    by (simp add: cxn2_def)
  have sent: "send_msg_cb env cxn p msg node = Some cxn1"
    unfolding cxn1_def echo_def by (rule send_msg_cb_records [OF assms(4-10)])
  have "chat_deliver_msg env cxn1 p (Some r) t
          = Some (set_chat p (?chat1\<lparr>sent_msgs := sent_msgs ?chat1 - {m}\<rparr>) cxn1)"
    by (rule chat_deliver_msg_suppressed [OF h1 assms(11)]) simp
  then have supp: "chat_deliver_msg env cxn1 p (Some r) t = Some cxn2"
    by (simp add: cxn2_def)
  have tr: "trace cxn2 = trace cxn @ [echo]"
    by (simp add: cxn2_def cxn1_def)
  have jugg: "chat_msg_jugg_cb env cxn1 p data_node
              = Some (True, set_chat p ?chat2 (chime_update_last_msg cxn1 True (chat_room_id chat) ts m))"
    if a: "messages (msgs chat) = None \<and>
          json_object_get_member (json_node_get_object data_node) ''record'' = Some r \<and>
          parse_time env (Some r) ''CreatedOn'' = Some (ts, tv)"
  proof -
    let ?u = "chime_update_last_msg cxn1 True (chat_room_id chat) ts m"
    have hu: "heap ?u p = Some ?chat1" by (simp add: h1)
    have "chat_msg_jugg_cb env cxn1 p data_node
            = map_option (Pair True)
                (chat_deliver_msg env (chime_update_last_msg cxn1 True (chat_room_id ?chat1) ts m) p
                   (Some r) (fst tv))"
      by (rule chat_msg_jugg_cb_passes [OF h1 _ _ assms(11)]) (simp_all add: a)
    moreover have "chat_deliver_msg env ?u p (Some r) (fst tv)
            = Some (set_chat p (?chat1\<lparr>sent_msgs := sent_msgs ?chat1 - {m}\<rparr>) ?u)"
      by (rule chat_deliver_msg_suppressed [OF hu assms(11)]) simp
    ultimately show ?thesis by simp
  qed
  have later: "chat_deliver_msg env cxn2 p (Some r2) t2 = parse_incoming_msg env cxn2 p (Some r2) t2"
    if c: "get_string (Some r2) ''MessageId'' = Some m2 \<and> m2 \<notin> sent_msgs chat - {m}" for r2 m2 t2
  proof (rule chat_deliver_msg_passes [OF h2, of _ m2])
    show "get_string (Some r2) ''MessageId'' = Some m2" using c by simp
    show "m2 \<notin> sent_msgs ?chat2" using c by simp
  qed
  have again: "map_option trace (chat_deliver_msg env cxn2 p (Some r2) t2)
              = Some (trace cxn @ [echo, serv_got_chat_in env cxn chat content2 sender2 t2])"
    if b: "get_string (Some r2) ''MessageId'' = Some m \<and>
        get_string (Some r2) ''Content'' = Some content2 \<and>
        get_string (Some r2) ''Sender'' = Some sender2" for r2 t2 content2 sender2
  proof -
    have "chat_deliver_msg env cxn2 p (Some r2) t2 = parse_incoming_msg env cxn2 p (Some r2) t2"
      by (rule later [of r2 m]) (simp add: b)
    also have "\<dots> = Some (emit_host (serv_got_chat_in env cxn2 ?chat2 content2 sender2 t2) cxn2)"
      by (rule parse_incoming_msg_delivers [OF h2]) (simp_all add: b)
    also have "serv_got_chat_in env cxn2 ?chat2 content2 sender2 t2
                 = serv_got_chat_in env cxn chat content2 sender2 t2"
      by (rule serv_got_chat_in_cong) (simp_all add: cxn2_def cxn1_def emit_host_def)
    finally show ?thesis by (simp add: tr)
  qed
  from sent supp tr jugg later again show ?thesis by blast
qed

theorem sent_message_echoed_once_witness:
  "heap ex_conn 0 = Some ex_chat \<and>
   SOUP_STATUS_IS_SUCCESSFUL (status_code ex_sent) \<and>
   json_object_get_member (json_node_get_object (Some (JObject [(''Message'', ex_record)]))) ''Message''
     = Some ex_record \<and>
   \<not> already_seen ex_env ex_conn ex_chat (created_on ex_env (Some ex_record)) \<and>
   messages (msgs ex_chat) = None \<and>
   json_object_get_member (json_node_get_object (Some (JObject [(''record'', ex_record)]))) ''record''
     = Some ex_record \<and>
   map_option trace (send_msg_cb ex_env ex_conn 0 ex_sent (Some (JObject [(''Message'', ex_record)])))
     = Some [ServGotChatIn 1 ''Me'' {PURPLE_MESSAGE_SEND} ''hi'' 4] \<and>
   map_option trace
     (Option.bind (send_msg_cb ex_env ex_conn 0 ex_sent (Some (JObject [(''Message'', ex_record)])))
        (\<lambda>c. chat_deliver_msg ex_env c 0 (Some ex_record) 4))
     = Some [ServGotChatIn 1 ''Me'' {PURPLE_MESSAGE_SEND} ''hi'' 4] \<and>
   map_option (trace \<circ> snd)
     (Option.bind (send_msg_cb ex_env ex_conn 0 ex_sent (Some (JObject [(''Message'', ex_record)])))
        (\<lambda>c. chat_msg_jugg_cb ex_env c 0 (Some (JObject [(''record'', ex_record)]))))
     = Some [ServGotChatIn 1 ''Me'' {PURPLE_MESSAGE_SEND} ''hi'' 4] \<and>
   map_option trace
     (Option.bind
        (Option.bind (send_msg_cb ex_env ex_conn 0 ex_sent (Some (JObject [(''Message'', ex_record)])))
           (\<lambda>c. chat_deliver_msg ex_env c 0 (Some ex_record) 4))
        (\<lambda>c. chat_deliver_msg ex_env c 0 (Some ex_record) 9))
     = Some [ServGotChatIn 1 ''Me'' {PURPLE_MESSAGE_SEND} ''hi'' 4,
             ServGotChatIn 1 ''Me'' {PURPLE_MESSAGE_SEND} ''hi'' 9]"
proof -
  have a1: "heap ex_conn 0 = Some ex_chat"
    by (simp add: ex_conn_def)
  have a2: "SOUP_STATUS_IS_SUCCESSFUL (status_code ex_sent)"
    by (simp add: ex_sent_def SOUP_STATUS_IS_SUCCESSFUL_def)
  have a3: "json_object_get_member (json_node_get_object (Some (JObject [(''Message'', ex_record)]))) ''Message''
              = Some ex_record"
    by simp
  have a7: "\<not> already_seen ex_env ex_conn ex_chat (created_on ex_env (Some ex_record))"
    by (simp add: already_seen_def chime_read_last_msg_def ex_conn_def)
  have b1: "messages (msgs ex_chat) = None"
    by (simp add: ex_chat_def)
  have b2: "json_object_get_member (json_node_get_object (Some (JObject [(''record'', ex_record)]))) ''record''
              = Some ex_record"
    by simp
  have t0: "trace ex_conn = []"
    by (simp add: ex_conn_def)
  note w = sent_message_echoed_once
             [OF a1 a2 a3 ex_record_fields(1) ex_record_fields(2) ex_record_fields(3) a7
                 ex_record_fields(1),
              where t = 4 and data_node = "Some (JObject [(''record'', ex_record)])"
                and ts = "''2017''" and tv = "(4, 0)"]
  from w have w1: "send_msg_cb ex_env ex_conn 0 ex_sent (Some (JObject [(''Message'', ex_record)]))
      = Some (emit_host (serv_got_chat_in ex_env ex_conn ex_chat ''hi'' ''me'' (fst (created_on ex_env (Some ex_record))))
               (set_chat 0 (ex_chat\<lparr>sent_msgs := insert ''m1'' (sent_msgs ex_chat)\<rparr>) ex_conn))"
    by (rule conjunct1)
  from w have w2: "chat_deliver_msg ex_env
       (emit_host (serv_got_chat_in ex_env ex_conn ex_chat ''hi'' ''me'' (fst (created_on ex_env (Some ex_record))))
               (set_chat 0 (ex_chat\<lparr>sent_msgs := insert ''m1'' (sent_msgs ex_chat)\<rparr>) ex_conn))
       0 (Some ex_record) 4
      = Some (set_chat 0 (ex_chat\<lparr>sent_msgs := sent_msgs ex_chat - {''m1''}\<rparr>)
          (emit_host (serv_got_chat_in ex_env ex_conn ex_chat ''hi'' ''me'' (fst (created_on ex_env (Some ex_record))))
               (set_chat 0 (ex_chat\<lparr>sent_msgs := insert ''m1'' (sent_msgs ex_chat)\<rparr>) ex_conn)))"
    by blast
  from w b1 b2 ex_record_fields(4) have w4: "chat_msg_jugg_cb ex_env
       (emit_host (serv_got_chat_in ex_env ex_conn ex_chat ''hi'' ''me'' (fst (created_on ex_env (Some ex_record))))
               (set_chat 0 (ex_chat\<lparr>sent_msgs := insert ''m1'' (sent_msgs ex_chat)\<rparr>) ex_conn))
       0 (Some (JObject [(''record'', ex_record)]))
      = Some (True, set_chat 0 (ex_chat\<lparr>sent_msgs := sent_msgs ex_chat - {''m1''}\<rparr>)
          (chime_update_last_msg
            (emit_host (serv_got_chat_in ex_env ex_conn ex_chat ''hi'' ''me'' (fst (created_on ex_env (Some ex_record))))
               (set_chat 0 (ex_chat\<lparr>sent_msgs := insert ''m1'' (sent_msgs ex_chat)\<rparr>) ex_conn))
            True (chat_room_id ex_chat) ''2017'' ''m1''))"
    by blast
  from w ex_record_fields(1-3) have w6: "map_option trace (chat_deliver_msg ex_env
        (set_chat 0 (ex_chat\<lparr>sent_msgs := sent_msgs ex_chat - {''m1''}\<rparr>)
          (emit_host (serv_got_chat_in ex_env ex_conn ex_chat ''hi'' ''me'' (fst (created_on ex_env (Some ex_record))))
               (set_chat 0 (ex_chat\<lparr>sent_msgs := insert ''m1'' (sent_msgs ex_chat)\<rparr>) ex_conn)))
        0 (Some ex_record) 9)
      = Some (trace ex_conn @ [serv_got_chat_in ex_env ex_conn ex_chat ''hi'' ''me'' (fst (created_on ex_env (Some ex_record))),
                               serv_got_chat_in ex_env ex_conn ex_chat ''hi'' ''me'' 9])"
    by blast
  show ?thesis
    using a1 a2 a3 a7 b1 b2 w1 w2 w4 w6
    by (simp add: ex_record_fields(5) ex_echo t0)
qed

text \<open>
  C2. While the in-progress buffer of the room exists, \<open>chat_msg_jugg_cb\<close> returns without
  any call to the host, and an event that has a record with a \<open>MessageId\<close> has that record
  put into the buffer under its message id. Conversely, whenever \<open>chat_msg_jugg_cb\<close> does
  make a call to the host, the room has no buffer (any more).
\<close>

theorem live_event_buffered_during_fetch:
  "(heap cxn p = Some chat \<and> messages (msgs chat) = Some buffer \<longrightarrow>
      (\<exists>res. chat_msg_jugg_cb env cxn p data_node = Some res \<and> trace (snd res) = trace cxn) \<and>
      (\<forall>r m. json_object_get_member (json_node_get_object data_node) ''record'' = Some r \<and>
             get_string (Some r) ''MessageId'' = Some m \<longrightarrow>
             chat_msg_jugg_cb env cxn p data_node
               = Some (True,
                   set_chat p (chat\<lparr>msgs := (msgs chat)\<lparr>messages := Some (buffer(m \<mapsto> r))\<rparr>\<rparr>) cxn))) \<and>
   (\<forall>res. chat_msg_jugg_cb env cxn p data_node = Some res \<and> trace (snd res) \<noteq> trace cxn \<longrightarrow>
      (\<exists>chat'. heap cxn p = Some chat' \<and> messages (msgs chat') = None))"
  using chat_msg_jugg_cb_quiet [of cxn p chat buffer env data_node]
        chat_msg_jugg_cb_buffers [of cxn p chat buffer data_node _ _ env]
        chat_msg_jugg_cb_delivery_needs_no_buffer [of env cxn p data_node]
  by blast

theorem live_event_buffered_during_fetch_witness:
  "heap ex_fetching 0 = Some ex_fetching_chat \<and>
   messages (msgs ex_fetching_chat) = Some Map.empty \<and>
   json_object_get_member (json_node_get_object (Some (JObject [(''record'', ex_record)]))) ''record''
     = Some ex_record \<and>
   get_string (Some ex_record) ''MessageId'' = Some ''m1'' \<and>
   chat_msg_jugg_cb ex_env ex_fetching 0 (Some (JObject [(''record'', ex_record)]))
     = Some (True,
         set_chat 0 (ex_fetching_chat\<lparr>msgs := (msgs ex_fetching_chat)
                       \<lparr>messages := Some [''m1'' \<mapsto> ex_record]\<rparr>\<rparr>) ex_fetching) \<and>
   trace (set_chat 0 (ex_fetching_chat\<lparr>msgs := (msgs ex_fetching_chat)
                       \<lparr>messages := Some [''m1'' \<mapsto> ex_record]\<rparr>\<rparr>) ex_fetching) = trace ex_fetching \<and>
   map_option (trace \<circ> snd) (chat_msg_jugg_cb ex_env ex_conn 0 (Some (JObject [(''record'', ex_record)])))
     = Some [ServGotChatIn 1 ''Me'' {PURPLE_MESSAGE_SEND} ''hi'' 4] \<and>
   trace ex_conn = [] \<and>
   (\<exists>chat'. heap ex_conn 0 = Some chat' \<and> messages (msgs chat') = None)"
proof -
  have a: "heap ex_fetching 0 = Some ex_fetching_chat"
    "messages (msgs ex_fetching_chat) = Some Map.empty"
    by (simp_all add: ex_fetching_def ex_fetching_chat_def)
  have b: "json_object_get_member (json_node_get_object (Some (JObject [(''record'', ex_record)]))) ''record''
     = Some ex_record"
    by simp
  have t0: "trace ex_conn = []"
    by (simp add: ex_conn_def)
  have d: "trace (snd (True, emit_host (ServGotChatIn 1 ''Me'' {PURPLE_MESSAGE_SEND} ''hi'' 4)
                     (chime_update_last_msg ex_conn True ''r1'' ''2017'' ''m1''))) \<noteq> trace ex_conn"
    by (simp add: t0)
  note w1 = live_event_buffered_during_fetch
              [of ex_fetching 0 ex_fetching_chat Map.empty ex_env "Some (JObject [(''record'', ex_record)])"]
  note w2 = live_event_buffered_during_fetch
              [of ex_conn 0 ex_chat Map.empty ex_env "Some (JObject [(''record'', ex_record)])"]
  from w1 a b ex_record_fields(1)
  have c1: "chat_msg_jugg_cb ex_env ex_fetching 0 (Some (JObject [(''record'', ex_record)]))
     = Some (True,
         set_chat 0 (ex_fetching_chat\<lparr>msgs := (msgs ex_fetching_chat)
                       \<lparr>messages := Some [''m1'' \<mapsto> ex_record]\<rparr>\<rparr>) ex_fetching)"
    by blast
  from w2 ex_passed d
  have c2: "\<exists>chat'. heap ex_conn 0 = Some chat' \<and> messages (msgs chat') = None"
    by blast
  show ?thesis
    using a b ex_record_fields(1) c1 c2 t0 by (simp add: ex_passed)
qed

text \<open>
  C3. Requests that each get an authentication failure while no renewal has completed:
  starting from an empty pending queue, parking any non-empty sequence of them issues
  exactly one renewal request (the one call added to the trace) and queues them in
  submission order. When the renewal then succeeds with a new session token, the token is
  stored, the queue is emptied, and every parked request is handed to the session again
  exactly once, in that order, each with exactly one \<open>Cookie\<close> header, the one made from the
  new token.
\<close>

theorem renewal_once_then_fifo:
  assumes "msg_queue cxn = []" and "reqs \<noteq> []"
      and "status_code rsp = 200 \<or> status_code rsp = 201"
      and "response_content_type rsp = Some ''application/json''"
      and "response_json rsp = LoadOk (Some node)"
      and "get_string (Some node) ''SessionToken'' = Some tok"
  shows "(\<exists>renewal. calls (resubmit_all cxn reqs)
                      = calls cxn @ [SoupSessionQueueMessage renewal RenewCb]) \<and>
         msg_queue (resubmit_all cxn reqs) = map parked reqs \<and>
         map_option session_token (renew_cb (resubmit_all cxn reqs) rsp) = Some (Some tok) \<and>
         map_option msg_queue (renew_cb (resubmit_all cxn reqs) rsp) = Some [] \<and>
         map_option calls (renew_cb (resubmit_all cxn reqs) rsp)
           = Some (calls (resubmit_all cxn reqs) @ [PurpleAccountSetString ''token'' tok]
                     @ map (reissued (''_aws_wt_session='' @ tok)) (map parked reqs)) \<and>
         (\<forall>r \<in> set reqs.
            filter (\<lambda>(n, _). n = ''Cookie'')
              (request_headers (soup_message_headers_replace ''Cookie''
                                  (''_aws_wt_session='' @ tok) (fst r)))
            = [(''Cookie'', ''_aws_wt_session='' @ tok)])"
proof -
  obtain r rest where reqs: "reqs = r # rest"
    using assms(2) by (cases reqs) auto
  let ?c1 = "resubmit_msg_for_auth cxn (fst r) (snd r)"
  have c1: "?c1 = chime_renew_token (cxn\<lparr>msg_queue := [parked r]\<rparr>)"
    using resubmit_first [OF assms(1), of "fst r" "snd r"] by simp
  have q1: "msg_queue ?c1 = [parked r]"
    by (simp add: c1 chime_renew_token_fields)
  obtain renewal where k1: "calls ?c1 = calls cxn @ [SoupSessionQueueMessage renewal RenewCb]"
    using chime_renew_token_fields(3) [of "cxn\<lparr>msg_queue := [parked r]\<rparr>"] by (auto simp: c1)
  have "resubmit_all cxn (r # rest) = resubmit_all ?c1 rest"
    by (simp add: resubmit_all_def)
  also have "\<dots> = ?c1\<lparr>msg_queue := msg_queue ?c1 @ map parked rest\<rparr>"
    by (rule resubmit_all_pending) (simp add: q1)
  finally have all: "resubmit_all cxn (r # rest) = ?c1\<lparr>msg_queue := msg_queue ?c1 @ map parked rest\<rparr>" .
  have calls_all: "calls (resubmit_all cxn reqs) = calls cxn @ [SoupSessionQueueMessage renewal RenewCb]"
    unfolding reqs all by (simp add: k1)
  have queue_all: "msg_queue (resubmit_all cxn reqs) = map parked reqs"
    unfolding reqs all by (simp add: q1)
  note ok = renew_cb_success [OF assms(3-6), of "resubmit_all cxn reqs"]
  have "\<exists>renewal. calls (resubmit_all cxn reqs) = calls cxn @ [SoupSessionQueueMessage renewal RenewCb]"
    using calls_all by (rule exI)
  moreover have "map_option session_token (renew_cb (resubmit_all cxn reqs) rsp) = Some (Some tok)"
    by (simp add: ok)
  moreover have "map_option msg_queue (renew_cb (resubmit_all cxn reqs) rsp) = Some []"
    by (simp add: ok)
  moreover have "map_option calls (renew_cb (resubmit_all cxn reqs) rsp)
           = Some (calls (resubmit_all cxn reqs) @ [PurpleAccountSetString ''token'' tok]
                     @ map (reissued (''_aws_wt_session='' @ tok)) (map parked reqs))"
    by (simp add: ok queue_all)
  ultimately show ?thesis
    using queue_all by (simp add: cookie_replaced)
qed

theorem renewal_once_then_fifo_witness:
  "msg_queue ex_cxn = [] \<and> ex_reqs \<noteq> [] \<and>
   (\<exists>renewal. calls (resubmit_all ex_cxn ex_reqs) = [SoupSessionQueueMessage renewal RenewCb]) \<and>
   map_option session_token (renew_cb (resubmit_all ex_cxn ex_reqs) ex_renewed) = Some (Some ''new'') \<and>
   map_option msg_queue (renew_cb (resubmit_all ex_cxn ex_reqs) ex_renewed) = Some [] \<and>
   map_option calls (renew_cb (resubmit_all ex_cxn ex_reqs) ex_renewed)
     = Some (calls (resubmit_all ex_cxn ex_reqs) @
             [PurpleAccountSetString ''token'' ''new'',
              reissued ''_aws_wt_session=new'' (parked (ex_request ''a'', WsCb)),
              reissued ''_aws_wt_session=new'' (parked (ex_request ''b'', WsCb)),
              reissued ''_aws_wt_session=new'' (parked (ex_request ''c'', WsCb))])"
proof -
  have h: "msg_queue ex_cxn = []" "calls ex_cxn = []" "ex_reqs \<noteq> []"
    by (simp_all add: ex_cxn_def ex_reqs_def)
  have r: "status_code ex_renewed = 200 \<or> status_code ex_renewed = 201"
     "response_content_type ex_renewed = Some ''application/json''"
     "response_json ex_renewed = LoadOk (Some (JObject [(''SessionToken'', JString ''new'')]))"
     "get_string (Some (JObject [(''SessionToken'', JString ''new'')])) ''SessionToken'' = Some ''new''"
    by (simp_all add: ex_response_def ex_renewed_def)
  have m: "map parked ex_reqs = [parked (ex_request ''a'', WsCb), parked (ex_request ''b'', WsCb), parked (ex_request ''c'', WsCb)]"
    by (simp add: ex_reqs_def)
  from renewal_once_then_fifo [OF h(1) h(3) r] h m
  show ?thesis by simp
qed

text \<open>
  C4. \<open>fetch_members_cb\<close> never looks at the status of the response. The room of the
  example has its history complete and its first request for members in flight; the
  request fails with status 500 and there is no JSON node. \<open>fetch_members_cb\<close> then adds
  no member, finds no \<open>NextToken\<close>, sets \<open>members_done\<close> and calls
  \<open>chime_complete_messages\<close>: the room is declared ready, with no page of members
  fetched and no further request queued. (\<open>send_msg_cb\<close> tests
  \<open>SOUP_STATUS_IS_SUCCESSFUL\<close> before it reads its response.)
\<close>

theorem failed_members_page_declares_ready:
  "status_code ex_server_error = 500 \<and>
   SOUP_STATUS_IS_SUCCESSFUL (status_code ex_server_error) = False \<and>
   heap ex_members_pending 0 = Some ex_members_pending_chat \<and>
   msgs_done (msgs ex_members_pending_chat) = True \<and>
   members_done (msgs ex_members_pending_chat) = False \<and>
   members_msg ex_members_pending_chat = Some 1 \<and>
   ready_calls 0 ex_members_pending = 0 \<and>
   fetch_members_cb ex_members_pending 0 ex_server_error None
     = Some (chime_complete_messages
               (set_chat 0
                  (ex_members_pending_chat
                     \<lparr>members_msg := None,
                      msgs := (msgs ex_members_pending_chat)\<lparr>members_done := True\<rparr>\<rparr>)
                  ex_members_pending) 0) \<and>
   map_option trace (fetch_members_cb ex_members_pending 0 ex_server_error None)
     = Some [ChimeCompleteMessages 0] \<and>
   map_option (ready_calls 0) (fetch_members_cb ex_members_pending 0 ex_server_error None) = Some 1 \<and>
   map_option (requests_of \<circ> trace) (fetch_members_cb ex_members_pending 0 ex_server_error None)
     = Some []"
proof -
  have h: "heap ex_members_pending 0 = Some ex_members_pending_chat"
    by (simp add: ex_members_pending_def)
  have f: "msgs_done (msgs ex_members_pending_chat) = True"
      "members_done (msgs ex_members_pending_chat) = False"
      "members_msg ex_members_pending_chat = Some 1"
    by (simp_all add: ex_members_pending_chat_def ex_chat_def)
  have t: "trace ex_members_pending = []"
    by (simp add: ex_members_pending_def ex_conn_def)
  have r: "fetch_members_cb ex_members_pending 0 ex_server_error None
     = Some (chime_complete_messages
               (set_chat 0
                  (ex_members_pending_chat
                     \<lparr>members_msg := None,
                      msgs := (msgs ex_members_pending_chat)\<lparr>members_done := True\<rparr>\<rparr>)
                  ex_members_pending) 0)"
    by (simp add: fetch_members_cb_def h f Let_def set_chat_def)
  have s: "status_code ex_server_error = 500"
    by (simp add: ex_server_error_def soup_message_new_from_uri_def)
  show ?thesis
    unfolding r
    by (simp add: s h f t SOUP_STATUS_IS_SUCCESSFUL_def chime_complete_messages_def
          ready_calls_def emit_host_def)
qed

text \<open>
  C5 (as amended). When the renewal request fails (a status other than 200 and 201, a
  content type other than \<open>application/json\<close>, a body that the JSON parser rejects with an
  error, or a parsed root without a string \<open>SessionToken\<close>), \<open>renew_cb\<close> reports one
  connection error to libpurple and returns: the session token and the pending queue are
  as before, and no parked request is re-issued or completed.
\<close>

theorem renew_failure_leaves_queue:
  assumes "(status_code rsp \<noteq> 200 \<and> status_code rsp \<noteq> 201) \<or>
           response_content_type rsp \<noteq> Some ''application/json'' \<or>
           (\<exists>err. response_json rsp = LoadFailed (Some err)) \<or>
           (\<exists>node. response_json rsp = LoadOk (Some node) \<and>
                   get_string (Some node) ''SessionToken'' = None)"
  shows "\<exists>reason. renew_cb cxn rsp
                    = Some (cxn\<lparr>calls := calls cxn @ [PurpleConnectionErrorReason reason]\<rparr>)"
  using renew_cb_failure [OF assms, of cxn] by (simp add: emit_def)

theorem renew_failure_leaves_queue_witness:
  "status_code ex_failed \<noteq> 200 \<and> status_code ex_failed \<noteq> 201 \<and>
   (\<exists>reason. renew_cb ex_parked ex_failed
               = Some (ex_parked\<lparr>calls := calls ex_parked @ [PurpleConnectionErrorReason reason]\<rparr>))"
proof -
  have h: "status_code ex_failed \<noteq> 200 \<and> status_code ex_failed \<noteq> 201"
    by (simp add: ex_failed_def ex_response_def)
  then have "(status_code ex_failed \<noteq> 200 \<and> status_code ex_failed \<noteq> 201) \<or>
           response_content_type ex_failed \<noteq> Some ''application/json'' \<or>
           (\<exists>err. response_json ex_failed = LoadFailed (Some err)) \<or>
           (\<exists>node. response_json ex_failed = LoadOk (Some node) \<and>
                   get_string (Some node) ''SessionToken'' = None)"
    by (rule disjI1)
  from renew_failure_leaves_queue [OF this, of ex_parked] h
  show ?thesis by simp
qed

text \<open>
  C5 as stated fails: after a renewal answered with status 500 the parked request is still
  in the pending queue, and the only call made is the connection error.
\<close>

theorem renew_failure_counterexample:
  "map_option msg_queue (renew_cb ex_parked ex_failed) = Some [parked (ex_request ''a'', WsCb)] \<and>
   map_option calls (renew_cb ex_parked ex_failed)
     = Some [PurpleConnectionErrorReason ''Token renewal: Request failed(500): Internal Server Error'']"
  by (simp add: renew_cb_def process_soup_response_def ex_failed_def ex_response_def
        ex_parked_def ex_cxn_def emit_def soup_message_new_from_uri_def show_nat_500)




text \<open>
  C7. Joining a room that is joined already returns the chat that \<open>chats_by_room\<close> holds
  for the room and leaves the whole connection as it is: no chat is allocated, no table
  made, nothing subscribed, nothing queued, the host not called. Joining a room that is
  not joined makes one chat with two subscriptions and two requests, and a second join
  right after it returns that same chat and changes nothing.
\<close>

theorem join_idempotent:
  "(chats_by_room cxn r = Some p \<longrightarrow> do_join_chat cxn (Some r) = Some (cxn, Some p)) \<and>
   (chats_by_room cxn r = None \<longrightarrow>
      (\<exists>cxn1. do_join_chat cxn (Some r) = Some (cxn1, Some (next_ptr cxn)) \<and>
              length (subscriptions cxn1) = length (subscriptions cxn) + 2 \<and>
              length (pending cxn1) = length (pending cxn) + 2 \<and>
              do_join_chat cxn1 (Some r) = Some (cxn1, Some (next_ptr cxn))))"
proof (intro conjI impI)
  assume "chats_by_room cxn r = Some p"
  then show "do_join_chat cxn (Some r) = Some (cxn, Some p)"
    by (rule do_join_chat_existing)
next
  assume "chats_by_room cxn r = None"
  from do_join_chat_new [OF this]
  obtain cxn1 where j: "do_join_chat cxn (Some r) = Some (cxn1, Some (next_ptr cxn))"
    and c: "chats_by_room cxn1 r = Some (next_ptr cxn)"
    and n: "length (subscriptions cxn1) = length (subscriptions cxn) + 2"
       "length (pending cxn1) = length (pending cxn) + 2"
    by blast
  from do_join_chat_existing [OF c] j n
  show "\<exists>cxn1. do_join_chat cxn (Some r) = Some (cxn1, Some (next_ptr cxn)) \<and>
              length (subscriptions cxn1) = length (subscriptions cxn) + 2 \<and>
              length (pending cxn1) = length (pending cxn) + 2 \<and>
              do_join_chat cxn1 (Some r) = Some (cxn1, Some (next_ptr cxn))"
    by blast
qed

theorem join_idempotent_witness:
  "chats_by_room ex_conn ex_room = Some 0 \<and>
   do_join_chat ex_conn (Some ex_room) = Some (ex_conn, Some 0) \<and>
   chats_by_room ex_idle ex_room = None \<and>
   (\<exists>cxn1. do_join_chat ex_idle (Some ex_room) = Some (cxn1, Some 0) \<and>
           length (subscriptions cxn1) = 2 \<and> length (pending cxn1) = 2 \<and>
           do_join_chat cxn1 (Some ex_room) = Some (cxn1, Some 0))"
proof -
  have a: "chats_by_room ex_conn ex_room = Some 0"
    by (simp add: ex_conn_def)
  have b: "chats_by_room ex_idle ex_room = None" "next_ptr ex_idle = 0"
    "subscriptions ex_idle = []" "pending ex_idle = []"
    by (simp_all add: ex_idle_def)
  from join_idempotent [of ex_conn ex_room 0] a
  have c: "do_join_chat ex_conn (Some ex_room) = Some (ex_conn, Some 0)"
    by simp
  from join_idempotent [of ex_idle ex_room 0] b
  have d: "\<exists>cxn1. do_join_chat ex_idle (Some ex_room) = Some (cxn1, Some 0) \<and>
           length (subscriptions cxn1) = 2 \<and> length (pending cxn1) = 2 \<and>
           do_join_chat cxn1 (Some ex_room) = Some (cxn1, Some 0)"
    by (simp add: numeral_2_eq_2)
  from a b(1) c d show ?thesis by simp
qed

text \<open>
  C8 (as amended). For a negotiation response with status 200 whose body is not empty, the
  upgrade is attempted exactly when the body splits on \<open>:\<close> into four fields and the fourth
  begins with \<open>websocket,\<close> (the websocket transport listed first and followed by a comma);
  the upgrade passes the transports of the fourth field, \<open>websocket\<close> first. Every other such
  response, and a response without a body, gives the connection error
  \<open>Unexpected response in WebSocket setup\<close> and no upgrade.
\<close>

theorem ws_cb_upgrade_iff:
  assumes "status_code msg = 200" and "response_data msg \<noteq> Some []"
  shows "ws_cb cxn msg =
           Some (case response_data msg of
                   None \<Rightarrow> ws_unexpected cxn
                 | Some d \<Rightarrow>
                     if length (ws_fields d) = 4 \<and> prefix ''websocket,'' (ws_fields d ! 3)
                     then ws_upgrade cxn (ws_fields d ! 1) (ws_fields d ! 3)
                     else ws_unexpected cxn) \<and>
         (\<forall>f. prefix ''websocket,'' f \<longrightarrow> (\<exists>rest. ws_transports f = ''websocket'' # rest)) \<and>
         (\<forall>opt1 opt3. calls (ws_upgrade cxn opt1 opt3)
            = calls cxn @
              [PurpleConnectionUpdateProgress ''Establishing WebSocket connection...'' 4 CONNECT_STEPS,
               SoupSessionWebsocketConnectAsync
                 (soup_message_new_from_uri ''GET''
                    \<lparr>uri_string = websocket_url cxn @ ''/1/websocket/'' @ opt1,
                     uri_query = [(''session_uuid'', session_id cxn)]\<rparr>)
                 (ws_transports opt3)]) \<and>
         calls (ws_unexpected cxn)
            = calls cxn @ [PurpleConnectionErrorReason ''Unexpected response in WebSocket setup'']"
proof (intro conjI allI impI)
  show "ws_cb cxn msg =
           Some (case response_data msg of
                   None \<Rightarrow> ws_unexpected cxn
                 | Some d \<Rightarrow>
                     if length (ws_fields d) = 4 \<and> prefix ''websocket,'' (ws_fields d ! 3)
                     then ws_upgrade cxn (ws_fields d ! 1) (ws_fields d ! 3)
                     else ws_unexpected cxn)"
  proof (cases "response_data msg")
    case None
    then show ?thesis
      by (simp add: ws_cb_def assms(1) ws_unexpected_def)
  next
    case (Some d)
    with assms(2) have "d \<noteq> []" by simp
    from ws_cb_ok [OF assms(1) Some this] Some show ?thesis by simp
  qed
next
  fix f :: string
  assume "prefix ''websocket,'' f"
  then show "\<exists>rest. ws_transports f = ''websocket'' # rest"
    by (rule ws_transports_first)
next
  fix opt1 opt3
  show "calls (ws_upgrade cxn opt1 opt3)
            = calls cxn @
              [PurpleConnectionUpdateProgress ''Establishing WebSocket connection...'' 4 CONNECT_STEPS,
               SoupSessionWebsocketConnectAsync
                 (soup_message_new_from_uri ''GET''
                    \<lparr>uri_string = websocket_url cxn @ ''/1/websocket/'' @ opt1,
                     uri_query = [(''session_uuid'', session_id cxn)]\<rparr>)
                 (ws_transports opt3)]"
    by (simp add: ws_upgrade_def ws_transports_def emit_def Let_def)
next
  show "calls (ws_unexpected cxn)
            = calls cxn @ [PurpleConnectionErrorReason ''Unexpected response in WebSocket setup'']"
    by (simp add: ws_unexpected_def emit_def)
qed

theorem ws_cb_upgrade_iff_witness:
  "status_code (ex_negotiation ''a:b:c:websocket,xhr-polling'') = 200 \<and>
   response_data (ex_negotiation ''a:b:c:websocket,xhr-polling'') \<noteq> Some [] \<and>
   ws_cb ex_cxn (ex_negotiation ''a:b:c:websocket,xhr-polling'')
     = Some (ws_upgrade ex_cxn ''b'' ''websocket,xhr-polling'') \<and>
   prefix ''websocket,'' ''websocket,xhr-polling'' \<and>
   (\<exists>rest. ws_transports ''websocket,xhr-polling'' = ''websocket'' # rest)"
proof -
  have h: "status_code (ex_negotiation ''a:b:c:websocket,xhr-polling'') = 200"
          "response_data (ex_negotiation ''a:b:c:websocket,xhr-polling'') \<noteq> Some []"
    by (simp_all add: ex_negotiation_def)
  have d: "response_data (ex_negotiation ''a:b:c:websocket,xhr-polling'') = Some ''a:b:c:websocket,xhr-polling''"
    by (simp add: ex_negotiation_def)
  have p: "prefix ''websocket,'' ''websocket,xhr-polling''"
    by simp
  from ws_cb_upgrade_iff [OF h, of ex_cxn] h p
  show ?thesis
    by (simp add: d ex_fields_first)
qed

text \<open>
  C8 as stated fails: the body \<open>a:b:c:websocket\<close> has four fields and a transport list that
  contains \<open>websocket\<close>, and the response is answered with the connection error.
\<close>

theorem ws_cb_websocket_alone_counterexample:
  "ws_fields ''a:b:c:websocket'' = [''a'', ''b'', ''c'', ''websocket''] \<and>
   ''websocket'' \<in> set (ws_transports ''websocket'') \<and>
   map_option calls (ws_cb ex_cxn (ex_negotiation ''a:b:c:websocket''))
     = Some [PurpleConnectionErrorReason ''Unexpected response in WebSocket setup'']"
proof -
  have t: "ws_transports ''websocket'' = [''websocket'']"
    by (simp add: ws_transports_def g_strsplit_def)
  have "ws_cb ex_cxn (ex_negotiation ''a:b:c:websocket'') = Some (ws_unexpected ex_cxn)"
    using ws_cb_ok [of "ex_negotiation ''a:b:c:websocket''" "''a:b:c:websocket''" ex_cxn]
    by (simp add: ex_negotiation_def ex_fields_alone)
  then show ?thesis
    by (simp add: ex_fields_alone t ws_unexpected_def emit_def ex_cxn_def)
qed

text \<open>
  C9 (as amended). Outbound, for a table in which no display name is empty:
  \<open>parse_outbound_mentions\<close> makes one pass over the whole text for \<open>@all\<close>, one for
  \<open>@present\<close> and one for each member in the order of the table; a pass replaces every
  occurrence of its word in the text as the passes before have left it, by
  \<open><@all|All Members>\<close>, \<open><@present|Present Members>\<close> or \<open><@member-id|display name>\<close>.
  When no display name occurs in the text after the two keyword passes, only the keywords
  are rewritten. A message that is the display name of one member, free of \<open>@\<close>, becomes
  that member's wire mention when no name of a member before it in the table occurs in the
  display name and no name of a member after it occurs in the mention. Inbound: in the
  escaped text, behind text in which no \<open>&lt;@\<close> occurs, a wire mention \<open>&lt;@id|Name&gt;\<close>
  (an id of ASCII letters, digits, underscores and hyphens, a name without \<open>&gt;\<close> and
  line break) is rewritten to \<open><b>Name</b>\<close> and the rewriting goes on behind it; text in
  which no \<open>&lt;@\<close> occurs is kept. Round trip: the wire mention of such an id and a name of
  plain characters, escaped, is displayed as the name in bold.
\<close>

theorem mention_rewriting:
  "((\<forall>e \<in> set ms. display_name (snd e) \<noteq> []) \<longrightarrow>
      parse_outbound_mentions ms message
        = Some (foldl rewrite_member
                  (subst_all ''@present'' ''<@present|Present Members>''
                     (subst_all ''@all'' ''<@all|All Members>'' message)) ms)) \<and>
   ((\<forall>e \<in> set ms. \<not> strstr (subst_all ''@present'' ''<@present|Present Members>''
                                 (subst_all ''@all'' ''<@all|All Members>'' message))
                         (display_name (snd e))) \<longrightarrow>
      parse_outbound_mentions ms message
        = Some (subst_all ''@present'' ''<@present|Present Members>''
                  (subst_all ''@all'' ''<@all|All Members>'' message))) \<and>
   (name \<noteq> [] \<and> CHR ''@'' \<notin> set name \<and> display_name m = name \<and>
    (\<forall>e \<in> set before. \<not> strstr name (display_name (snd e))) \<and>
    (\<forall>e \<in> set after. \<not> strstr (chime_mention mid name) (display_name (snd e))) \<longrightarrow>
      parse_outbound_mentions (before @ [(mid, m)] @ after) name = Some (chime_mention mid name)) \<and>
   (\<not> strstr pre ''&lt;@'' \<and> mid \<noteq> [] \<and> (\<forall>c \<in> set mid. is_word_char c) \<and>
    no_gt_or_newline name \<longrightarrow>
      regex_replace_mentions w (pre @ ''&lt;@'' @ mid @ ''|'' @ name @ ''&gt;'' @ rest)
        = pre @ ''<b>'' @ name @ ''</b>'' @ regex_replace_mentions w rest) \<and>
   (\<not> strstr pre ''&lt;@'' \<longrightarrow> regex_replace_mentions w pre = pre) \<and>
   (mid \<noteq> [] \<and> (\<forall>c \<in> set mid. is_word_char c) \<and> (\<forall>c \<in> set name. plain_char c) \<longrightarrow>
      snd (parse_inbound_mentions w pid (g_markup_escape_text (chime_mention mid name)))
        = ''<b>'' @ name @ ''</b>'')"
proof (intro conjI impI)
  assume "\<forall>e \<in> set ms. display_name (snd e) \<noteq> []"
  then show "parse_outbound_mentions ms message
        = Some (foldl rewrite_member
                  (subst_all ''@present'' ''<@present|Present Members>''
                     (subst_all ''@all'' ''<@all|All Members>'' message)) ms)"
    by (rule parse_outbound_mentions_subst)
next
  assume "\<forall>e \<in> set ms. \<not> strstr (subst_all ''@present'' ''<@present|Present Members>''
                                 (subst_all ''@all'' ''<@all|All Members>'' message))
                         (display_name (snd e))"
  then show "parse_outbound_mentions ms message
        = Some (subst_all ''@present'' ''<@present|Present Members>''
                  (subst_all ''@all'' ''<@all|All Members>'' message))"
    by (rule parse_outbound_keywords_only)
next
  assume "name \<noteq> [] \<and> CHR ''@'' \<notin> set name \<and> display_name m = name \<and>
    (\<forall>e \<in> set before. \<not> strstr name (display_name (snd e))) \<and>
    (\<forall>e \<in> set after. \<not> strstr (chime_mention mid name) (display_name (snd e)))"
  then show "parse_outbound_mentions (before @ [(mid, m)] @ after) name = Some (chime_mention mid name)"
    using parse_outbound_one_name [of name m before after mid] by blast
next
  assume "\<not> strstr pre ''&lt;@'' \<and> mid \<noteq> [] \<and> (\<forall>c \<in> set mid. is_word_char c) \<and>
    no_gt_or_newline name"
  then show "regex_replace_mentions w (pre @ ''&lt;@'' @ mid @ ''|'' @ name @ ''&gt;'' @ rest)
        = pre @ ''<b>'' @ name @ ''</b>'' @ regex_replace_mentions w rest"
    using regex_replace_in_text [of pre mid name w rest] by blast
next
  assume "\<not> strstr pre ''&lt;@''"
  then show "regex_replace_mentions w pre = pre"
    by (rule regex_replace_kept)
next
  assume "mid \<noteq> [] \<and> (\<forall>c \<in> set mid. is_word_char c) \<and> (\<forall>c \<in> set name. plain_char c)"
  then show "snd (parse_inbound_mentions w pid (g_markup_escape_text (chime_mention mid name)))
        = ''<b>'' @ name @ ''</b>''"
    using escaped_mention_displayed [of mid name w pid] by blast
qed

theorem mention_rewriting_witness:
  "list_all (\<lambda>e. display_name (snd e) \<noteq> []) [(''a1'', ex_member)] = True \<and>
   parse_outbound_mentions [(''a1'', ex_member)] ''@all Jo'' = Some ''<@all|All Members> <@a1|Jo>'' \<and>
   list_ex (\<lambda>e. strstr ''<@all|All Members>'' (display_name (snd e)))
     [(''c3'', ex_sam), (''a1'', ex_member), (''d4'', ex_kim)] = False \<and>
   parse_outbound_mentions [(''c3'', ex_sam), (''a1'', ex_member), (''d4'', ex_kim)] ''@all''
     = Some ''<@all|All Members>'' \<and>
   strstr ''Jo'' (display_name ex_sam) = False \<and>
   strstr (chime_mention ''a1'' ''Jo'') (display_name ex_kim) = False \<and>
   parse_outbound_mentions [(''c3'', ex_sam), (''a1'', ex_member), (''d4'', ex_kim)] ''Jo''
     = Some ''<@a1|Jo>'' \<and>
   strstr ''hi '' ''&lt;@'' = False \<and> list_all is_word_char ''a1'' = True \<and>
   no_gt_or_newline ''Jo'' = True \<and>
   regex_replace_mentions (ucp_word ex_env) (''hi '' @ ''&lt;@'' @ ''a1'' @ ''|'' @ ''Jo'' @ ''&gt;'' @ ''!'')
     = ''hi <b>Jo</b>!'' \<and>
   list_all plain_char ''Jo'' = True \<and>
   snd (parse_inbound_mentions (ucp_word ex_env) ''me'' (g_markup_escape_text ''<@a1|Jo>''))
     = ''<b>Jo</b>''"
proof -
  have d: "\<forall>e \<in> set [(''a1'', ex_member)]. display_name (snd e) \<noteq> []"
    by (simp add: ex_member_def)
  have k: "\<forall>e \<in> set [(''c3'', ex_sam), (''a1'', ex_member), (''d4'', ex_kim)].
             \<not> strstr (subst_all ''@present'' ''<@present|Present Members>''
                         (subst_all ''@all'' ''<@all|All Members>'' ''@all''))
                 (display_name (snd e))"
    by (simp add: ex_sam_def ex_member_def ex_kim_def strstr_def)
  have b: "\<forall>e \<in> set [(''c3'', ex_sam)]. \<not> strstr ''Jo'' (display_name (snd e))"
    by (simp add: ex_sam_def strstr_def)
  have a: "\<forall>e \<in> set [(''d4'', ex_kim)]. \<not> strstr (chime_mention ''a1'' ''Jo'') (display_name (snd e))"
    by (simp add: ex_kim_def strstr_def chime_mention_def)
  have n: "''Jo'' \<noteq> []" "CHR ''@'' \<notin> set ''Jo''" "display_name ex_member = ''Jo''" "''a1'' \<noteq> []"
    by (simp_all add: ex_member_def)
  have p: "\<not> strstr ''hi '' ''&lt;@''" "\<not> strstr ''!'' ''&lt;@''"
    by (simp_all add: strstr_def)
  have cm: "chime_mention ''a1'' ''Jo'' = ''<@a1|Jo>''"
    by (simp add: chime_mention_def)
  note w1 = mention_rewriting [of "[(''a1'', ex_member)]" "''@all Jo''" "''Jo''" ex_member
              "[(''c3'', ex_sam)]" "[(''d4'', ex_kim)]" "''a1''" "''hi ''" "ucp_word ex_env" "''!''" "''me''"]
  note w2 = mention_rewriting [of "[(''c3'', ex_sam), (''a1'', ex_member), (''d4'', ex_kim)]" "''@all''"
              "''Jo''" ex_member "[]" "[]" "''a1''" "''!''" "ucp_word ex_env" "[]" "''me''"]
  from w1 d have o1: "parse_outbound_mentions [(''a1'', ex_member)] ''@all Jo''
                        = Some ''<@all|All Members> <@a1|Jo>''"
    unfolding ex_outbound by blast
  from w2 k have o2: "parse_outbound_mentions [(''c3'', ex_sam), (''a1'', ex_member), (''d4'', ex_kim)] ''@all''
                        = Some ''<@all|All Members>''"
    by simp
  from w1 n b a have o3: "parse_outbound_mentions ([(''c3'', ex_sam)] @ [(''a1'', ex_member)] @ [(''d4'', ex_kim)]) ''Jo''
                        = Some (chime_mention ''a1'' ''Jo'')"
    by blast
  from w1 p(1) n(4) ex_word ex_name
  have i1: "regex_replace_mentions (ucp_word ex_env) (''hi '' @ ''&lt;@'' @ ''a1'' @ ''|'' @ ''Jo'' @ ''&gt;'' @ ''!'')
              = ''hi '' @ ''<b>'' @ ''Jo'' @ ''</b>'' @ regex_replace_mentions (ucp_word ex_env) ''!''"
    by blast
  from w2 p(2) have i2: "regex_replace_mentions (ucp_word ex_env) ''!'' = ''!''"
    by blast
  from w1 n(4) ex_word ex_plain
  have i3: "snd (parse_inbound_mentions (ucp_word ex_env) ''me'' (g_markup_escape_text (chime_mention ''a1'' ''Jo'')))
              = ''<b>'' @ ''Jo'' @ ''</b>''"
    by blast
  have e: "list_all (\<lambda>e. display_name (snd e) \<noteq> []) [(''a1'', ex_member)] = True"
      "list_ex (\<lambda>e. strstr ''<@all|All Members>'' (display_name (snd e)))
         [(''c3'', ex_sam), (''a1'', ex_member), (''d4'', ex_kim)] = False"
      "strstr ''Jo'' (display_name ex_sam) = False"
      "strstr (chime_mention ''a1'' ''Jo'') (display_name ex_kim) = False"
      "strstr ''hi '' ''&lt;@'' = False" "list_all is_word_char ''a1'' = True"
      "no_gt_or_newline ''Jo'' = True" "list_all plain_char ''Jo'' = True"
    using d b a p(1) ex_word ex_name ex_plain
    by (simp_all add: list_all_iff ex_sam_def ex_member_def ex_kim_def strstr_def)
  from o1 o2 o3 i1 i2 i3 e show ?thesis
    by (simp add: cm)
qed

text \<open>
  C9 as stated fails: a pass works on what the passes before have put into the text. With
  a member named \<open>All\<close>, \<open>@all\<close> does not become \<open><@all|All Members>\<close>: the member's pass
  rewrites the \<open>All\<close> inside it. With members named \<open>Jo\<close> and \<open>Jo Smith\<close>, the display name
  \<open>Jo Smith\<close> does not become the wire mention of its member.
\<close>

theorem mention_overlap_counterexample:
  "parse_outbound_mentions [(''x'', ex_all)] ''@all'' = Some ''<@all|<@x|All> Members>'' \<and>
   parse_outbound_mentions [(''a1'', ex_member), (''b2'', ex_smith)] ''Jo Smith''
     = Some ''<@a1|Jo> Smith''"
proof -
  have "\<forall>e \<in> set [(''x'', ex_all)]. display_name (snd e) \<noteq> []"
    by (simp add: ex_all_def)
  from parse_outbound_mentions_subst [OF this, of "''@all''"]
  have a: "parse_outbound_mentions [(''x'', ex_all)] ''@all'' = Some ''<@all|<@x|All> Members>''"
    by (simp add: rewrite_member_def chime_mention_def ex_all_def)
  have "\<forall>e \<in> set [(''a1'', ex_member), (''b2'', ex_smith)]. display_name (snd e) \<noteq> []"
    by (simp add: ex_member_def ex_smith_def)
  from parse_outbound_mentions_subst [OF this, of "''Jo Smith''"]
  have b: "parse_outbound_mentions [(''a1'', ex_member), (''b2'', ex_smith)] ''Jo Smith''
             = Some ''<@a1|Jo> Smith''"
    by (simp add: rewrite_member_def chime_mention_def ex_member_def ex_smith_def)
  from a b show ?thesis by (rule conjI)
qed

text \<open>
  C10. \<open>parse_string\<close> itself returns in every case and leaves \<open>*res\<close> as it was when it
  fails (\<open>parse_string_cases\<close>). Not every caller fails cleanly on a response of the wrong
  shape. \<open>renew_cb\<close>: for a response with status 200, the JSON content type and an empty
  body, \<open>process_soup_response\<close> returns no node and sets no error, and \<open>renew_cb\<close> reads
  \<open>error->message\<close> through the \<open>NULL\<close> error; this reading has no defined result.
  \<open>send_msg_cb\<close>: for a \<open>Message\<close> without \<open>CreatedOn\<close> it writes \<open>tv.tv_sec\<close> only and
  then compares \<open>tv.tv_usec\<close> with the last-seen marker; with the marker in the same
  second, the value that happens to be in \<open>tv.tv_usec\<close> decides whether the host gets the
  message.
\<close>

theorem callers_read_undefined_values:
  "process_soup_response ex_empty_document = (None, None) \<and>
   renew_cb ex_parked ex_empty_document = None \<and>
   json_object_get_member (json_node_get_object (Some (JObject [(''Message'', ex_untimed)]))) ''Message''
     = Some ex_untimed \<and>
   get_string (Some ex_untimed) ''CreatedOn'' = None \<and>
   parse_time ex_env (Some ex_untimed) ''CreatedOn'' = None \<and>
   created_on (ex_env\<lparr>time_now := 4, stack_usec := 0\<rparr>) (Some ex_untimed) = (4, 0) \<and>
   created_on (ex_env\<lparr>time_now := 4, stack_usec := 1\<rparr>) (Some ex_untimed) = (4, 1) \<and>
   map_option trace
     (send_msg_cb (ex_env\<lparr>time_now := 4, stack_usec := 0\<rparr>) ex_seen 0 ex_sent
        (Some (JObject [(''Message'', ex_untimed)])))
     = Some [] \<and>
   map_option trace
     (send_msg_cb (ex_env\<lparr>time_now := 4, stack_usec := 1\<rparr>) ex_seen 0 ex_sent
        (Some (JObject [(''Message'', ex_untimed)])))
     = Some [ServGotChatIn 1 ''Me'' {PURPLE_MESSAGE_SEND} ''hi'' 4]"
proof -
  have p: "process_soup_response ex_empty_document = (None, None)"
    by (simp add: process_soup_response_def ex_empty_document_def ex_response_def)
  then have r: "renew_cb ex_parked ex_empty_document = None"
    by (simp add: renew_cb_def)
  have u: "get_string (Some ex_untimed) ''CreatedOn'' = None"
      "get_string (Some ex_untimed) ''MessageId'' = Some ''m1''"
      "get_string (Some ex_untimed) ''Content'' = Some ''hi''"
      "get_string (Some ex_untimed) ''Sender'' = Some ''me''"
    by (simp_all add: ex_untimed_def)
  have t: "parse_time ex_env (Some ex_untimed) ''CreatedOn'' = None"
    by (simp add: ex_env_def u)
  have c: "created_on (ex_env\<lparr>time_now := 4, stack_usec := k\<rparr>) (Some ex_untimed) = (4, k)" for k
    using t by (simp add: created_on_def ex_env_def)
  have h: "heap ex_seen 0 = Some ex_chat" "trace ex_seen = []"
    by (simp_all add: ex_seen_def ex_conn_def)
  have s: "already_seen (ex_env\<lparr>time_now := 4, stack_usec := k\<rparr>) ex_seen ex_chat (4, k) = (k \<le> 0)" for k
    by (simp add: already_seen_def chime_read_last_msg_def ex_seen_def ex_conn_def ex_chat_def
          ex_env_def)
  have ok: "SOUP_STATUS_IS_SUCCESSFUL (status_code ex_sent)"
    by (simp add: ex_sent_def SOUP_STATUS_IS_SUCCESSFUL_def)
  have e: "serv_got_chat_in (ex_env\<lparr>time_now := 4, stack_usec := 1\<rparr>)
             (set_chat 0 (ex_chat\<lparr>sent_msgs := insert ''m1'' (sent_msgs ex_chat)\<rparr>) ex_seen)
             (ex_chat\<lparr>sent_msgs := insert ''m1'' (sent_msgs ex_chat)\<rparr>) ''hi'' ''me'' 4
           = ServGotChatIn 1 ''Me'' {PURPLE_MESSAGE_SEND} ''hi'' 4"
    by (simp add: serv_got_chat_in_def ex_seen_def ex_conn_def ex_chat_def parse_inbound_mentions_def
          escape_char_def escaped_control_def match_mention_def set_chat_def)
  have s0: "map_option trace
     (send_msg_cb (ex_env\<lparr>time_now := 4, stack_usec := 0\<rparr>) ex_seen 0 ex_sent
        (Some (JObject [(''Message'', ex_untimed)]))) = Some []"
    using ok by (simp add: send_msg_cb_def c s h)
  have s1: "map_option trace
     (send_msg_cb (ex_env\<lparr>time_now := 4, stack_usec := 1\<rparr>) ex_seen 0 ex_sent
        (Some (JObject [(''Message'', ex_untimed)])))
     = Some [ServGotChatIn 1 ''Me'' {PURPLE_MESSAGE_SEND} ''hi'' 4]"
    using ok by (simp add: send_msg_cb_def c s h u parse_incoming_msg_def e)
  from p r u(1) t c [of 0] c [of 1] s0 s1 show ?thesis
    by simp
qed

end
